theory Spec2Isabelle
  imports Main "HOL-Library.Char_ord" "HOL-Library.List_Lexorder" "HOL-Library.Product_Lexorder"
begin

section \<open>Boot-image import pipeline (provisioningserver/import\_images/boot\_resources.py)\<close>

text \<open>
  A shallow embedding of \<^verbatim>\<open>boot_resources.py\<close>. Python \<^verbatim>\<open>str\<close> values are modelled
  as \<^typ>\<open>string\<close>, read as the UTF-8 bytes of the text: concatenation, equality,
  \<^verbatim>\<open>startswith\<close>/\<^verbatim>\<open>endswith\<close> with an ASCII argument and the code-point order that
  \<^verbatim>\<open>sorted\<close> uses all agree with the bytewise operations, \<^verbatim>\<open>encode('utf-8')\<close> is the
  identity, and \<^verbatim>\<open>encode('ascii')\<close> succeeds exactly when every byte is below 128.
\<close>

subsection \<open>Exceptions\<close>

text \<open>
  The handlers of the module tell three classes apart: \<^verbatim>\<open>ExternalProcessError\<close>
  (caught in \<^verbatim>\<open>update_targets_conf\<close>), \<^verbatim>\<open>Exception\<close> (caught around the download) and
  \<^verbatim>\<open>BaseException\<close> (caught in \<^verbatim>\<open>link_bootloaders\<close>). \<open>NonException\<close> stands for
  a \<^verbatim>\<open>BaseException\<close> that is not an \<^verbatim>\<open>Exception\<close> (\<^verbatim>\<open>KeyboardInterrupt\<close>, \<^verbatim>\<open>SystemExit\<close>).
  The string is what \<^verbatim>\<open>str(e)\<close> gives.
\<close>

datatype exc =
    ExternalProcessError string
  | UnicodeEncodeError string
  | FileNotFoundError string
  | OtherException string
  | NonException string

fun is_Exception :: "exc \<Rightarrow> bool" where
  "is_Exception (NonException _) = False"
| "is_Exception _ = True"

fun is_ExternalProcessError :: "exc \<Rightarrow> bool" where
  "is_ExternalProcessError (ExternalProcessError _) = True"
| "is_ExternalProcessError _ = False"

fun exc_str :: "exc \<Rightarrow> string" where
  "exc_str (ExternalProcessError s) = s"
| "exc_str (UnicodeEncodeError s) = s"
| "exc_str (FileNotFoundError s) = s"
| "exc_str (OtherException s) = s"
| "exc_str (NonException s) = s"

subsection \<open>Paths\<close>

text \<open>
  \<^verbatim>\<open>os.path.join(a, *p)\<close> of \<^verbatim>\<open>posixpath\<close>: a component that starts with a slash
  replaces what was joined so far; otherwise it is appended, after a slash unless the
  path so far is empty or ends with one.
\<close>

fun os_path_join :: "string \<Rightarrow> string list \<Rightarrow> string" where
  "os_path_join path [] = path"
| "os_path_join path (b # p) =
     (if take 1 b = ''/'' then os_path_join b p
      else if path = [] \<or> last path = CHR ''/'' then os_path_join (path @ b) p
      else os_path_join (path @ ''/'' @ b) p)"

subsection \<open>The target descriptor\<close>

text \<open>
  \<^verbatim>\<open>tgt_entry\<close>: the \<^verbatim>\<open>dedent\<close>-ed template with prefix, target name and image path
  filled in (the parameter \<^verbatim>\<open>image\<close> is \<open>image_path\<close> here: \<open>image\<close> is a constant of HOL).
\<close>

definition tgt_entry ::
  "string \<Rightarrow> string \<Rightarrow> string \<Rightarrow> string \<Rightarrow> string \<Rightarrow> string \<Rightarrow> string" where
  "tgt_entry osystem arch subarch release label image_path =
     (let prefix = ''iqn.2004-05.com.ubuntu:maas'';
          target_name = ''ephemeral-'' @ osystem @ ''-'' @ arch @ ''-'' @ subarch @ ''-''
                          @ release @ ''-'' @ label
      in ''<target '' @ prefix @ '':'' @ target_name @ ''>\<newline>''
         @ ''    readonly 1\<newline>''
         @ ''    allow-in-use yes\<newline>''
         @ ''    backing-store '' @ [CHR 0x22] @ image_path @ [CHR 0x22] @ ''\<newline>''
         @ ''    driver iscsi\<newline>''
         @ ''</target>\<newline>'')"

type_synonym image_key = "string \<times> string \<times> string \<times> string \<times> string"

text \<open>
  The body of the second loop of \<^verbatim>\<open>compose_targets_conf\<close>, for one tuple of the sorted
  set: an entry for \<^verbatim>\<open>root-image\<close> if that is a regular file, then one for
  \<^verbatim>\<open>squashfs\<close> if that is a regular file.
\<close>

fun tuple_entries :: "(string \<Rightarrow> bool) \<Rightarrow> string \<Rightarrow> image_key \<Rightarrow> string list" where
  "tuple_entries isfile snapshot_path (osystem, arch, subarch, release, label) =
     (let base_path = os_path_join snapshot_path [osystem, arch, subarch, release, label];
          root_image = os_path_join base_path [''root-image''];
          squashfs_image = os_path_join base_path [''squashfs'']
      in (if isfile root_image
          then [tgt_entry osystem arch subarch release label root_image] else [])
       @ (if isfile squashfs_image
          then [tgt_entry osystem arch subarch release label squashfs_image] else []))"

text \<open>
  An item of \<^verbatim>\<open>list_boot_images\<close> is a dict; \<^verbatim>\<open>compose_targets_conf\<close> reads these five
  keys of it.
\<close>

record boot_image =
  osystem :: string
  architecture :: string
  subarchitecture :: string
  release :: string
  label :: string

definition image_key :: "boot_image \<Rightarrow> image_key" where
  "image_key item =
     (osystem item, architecture item, subarchitecture item, release item, label item)"

text \<open>
  \<^verbatim>\<open>compose_targets_conf\<close>. The listing of the snapshot (\<^verbatim>\<open>list_boot_images\<close>, of
  \<^verbatim>\<open>provisioningserver.boot.tftppath\<close>) and \<^verbatim>\<open>os.path.isfile\<close> are parameters.
  \<^verbatim>\<open>entries\<close> is the set of the tuples, \<^verbatim>\<open>sorted(entries)\<close> its ascending list,
  \<^verbatim>\<open>tgt_entries\<close> the list the second loop builds, and the result its
  \<^verbatim>\<open>''.join\<close>.
\<close>

definition sorted_entries :: "boot_image list \<Rightarrow> image_key list" where
  "sorted_entries items = sorted_list_of_set (set (map image_key items))"

definition tgt_entries ::
  "(string \<Rightarrow> boot_image list) \<Rightarrow> (string \<Rightarrow> bool) \<Rightarrow> string \<Rightarrow> string list" where
  "tgt_entries list_boot_images isfile snapshot_path =
     concat (map (tuple_entries isfile snapshot_path)
                 (sorted_entries (list_boot_images snapshot_path)))"

definition compose_targets_conf ::
  "(string \<Rightarrow> boot_image list) \<Rightarrow> (string \<Rightarrow> bool) \<Rightarrow> string \<Rightarrow> string" where
  "compose_targets_conf list_boot_images isfile snapshot_path =
     concat (tgt_entries list_boot_images isfile snapshot_path)"

subsection \<open>The StorageRoot\<close>

text \<open>
  The part of the filesystem the module reads and writes: the snapshot directories
  below the storage directory, the \<^verbatim>\<open>current\<close> symlink, the regular files by their real
  path (with the modification time \<^verbatim>\<open>os.utime\<close> sets), and the download cache, each
  entry with the snapshots that link to it.
\<close>

record regular_file =
  file_content :: string
  file_mtime :: nat

record storage_root =
  current :: "string option"
  snapshots :: "string set"
  files :: "string \<rightharpoonup> regular_file"
  cache :: "string \<rightharpoonup> string set"

subsection \<open>What the module imports\<close>

text \<open>
  A source is a dict; \<^verbatim>\<open>import_images\<close> itself reads only \<^verbatim>\<open>keyring_data\<close>, which is
  absent, a \<^verbatim>\<open>str\<close> or \<^verbatim>\<open>bytes\<close>.
\<close>

datatype keyring_data = KeyringStr string | KeyringBytes string

record source =
  url :: string
  keyring_data :: "keyring_data option"

text \<open>The \<^verbatim>\<open>BootImageMapping\<close> the catalog fetch returns, by the two methods called on it.\<close>

record image_descriptions =
  is_empty :: bool
  dump_json :: string

text \<open>The product mapping is opaque to this module: it is handed to the downloader.\<close>

type_synonym product_mapping = "(string \<times> string) list"

text \<open>
  The functions the module imports from the rest of \<^verbatim>\<open>provisioningserver\<close> and from
  the operating system are not part of it. They are the fields of \<open>env\<close>: what each
  returns or raises, and for those that write below the storage directory, the
  StorageRoot they leave.
  \<^item> \<open>config_storage\<close>: \<^verbatim>\<open>FilePath(config.tftp_root).parent().path\<close> of the cluster
    configuration; the StorageRoot is the directory at this path.
  \<^item> \<open>now\<close>: the clock \<^verbatim>\<open>os.utime(path, None)\<close> and a write read.
  \<^item> \<open>ensure_service\<close>: \<^verbatim>\<open>service_monitor.ensureService(name).wait(30)\<close>.
  \<^item> \<open>tgt_admin\<close>: \<^verbatim>\<open>call_and_check(sudo([tgt-admin, --conf, path, --update, ALL]))\<close>.
  \<^item> \<open>atomic_write_error\<close>, \<open>atomic_symlink_error\<close>: the error, if any, that
    \<^verbatim>\<open>atomic_write\<close> and \<^verbatim>\<open>atomic_symlink\<close> of \<^verbatim>\<open>provisioningserver.utils.fs\<close> raise
    for a destination.
  \<^item> \<open>boot_methods\<close>, \<open>link_bootloader\<close>: the names in \<^verbatim>\<open>BootMethodRegistry\<close> and the
    \<^verbatim>\<open>link_bootloader\<close> method of each.
\<close>

record env =
  config_storage :: string
  now :: nat
  keyrings_path :: string
  list_boot_images :: "storage_root \<Rightarrow> string \<Rightarrow> boot_image list"
  ensure_service :: "string \<Rightarrow> exc option"
  tgt_admin :: "string \<Rightarrow> exc option"
  atomic_write_error :: "string \<Rightarrow> exc option"
  atomic_symlink_error :: "string \<Rightarrow> exc option"
  boot_methods :: "string list"
  link_bootloader :: "string \<Rightarrow> string \<Rightarrow> storage_root \<Rightarrow> exc option \<times> storage_root"
  write_all_keyrings :: "string \<Rightarrow> source list \<Rightarrow> exc + source list"
  download_all_image_descriptions :: "source list \<Rightarrow> exc + image_descriptions"
  map_products :: "image_descriptions \<Rightarrow> exc + product_mapping"
  download_all_boot_resources ::
    "source list \<Rightarrow> string \<Rightarrow> product_mapping \<Rightarrow> storage_root \<Rightarrow> (exc + string) \<times> storage_root"

subsection \<open>Filesystem primitives\<close>

text \<open>
  A path at or below the \<^verbatim>\<open>current\<close> symlink names what the same path below the link's
  target names; without the link it names nothing. Any other path is a real path.
\<close>

definition current_link :: "env \<Rightarrow> string" where
  "current_link env = os_path_join (config_storage env) [''current'']"

definition resolve :: "env \<Rightarrow> storage_root \<Rightarrow> string \<Rightarrow> string option" where
  "resolve env st p =
     (let link = current_link env
      in if p = link \<or> take (length link + 1) p = link @ ''/''
         then (case current st of None \<Rightarrow> None | Some t \<Rightarrow> Some (t @ drop (length link) p))
         else Some p)"

definition isfile :: "env \<Rightarrow> storage_root \<Rightarrow> string \<Rightarrow> bool" where
  "isfile env st p = (case resolve env st p of None \<Rightarrow> False | Some q \<Rightarrow> files st q \<noteq> None)"

definition path_exists :: "env \<Rightarrow> storage_root \<Rightarrow> string \<Rightarrow> bool" where
  "path_exists env st p =
     (case resolve env st p of None \<Rightarrow> False
      | Some q \<Rightarrow> files st q \<noteq> None \<or> q \<in> snapshots st)"

text \<open>\<^verbatim>\<open>os.utime(path, None)\<close>, called in the module only on a path that is a file.\<close>

definition utime :: "env \<Rightarrow> string \<Rightarrow> storage_root \<Rightarrow> storage_root" where
  "utime env p st =
     (case resolve env st p of None \<Rightarrow> st
      | Some q \<Rightarrow> (case files st q of None \<Rightarrow> st
          | Some f \<Rightarrow> st\<lparr>files := (files st)(q \<mapsto> f\<lparr>file_mtime := now env\<rparr>)\<rparr>))"

definition read_text_file :: "env \<Rightarrow> storage_root \<Rightarrow> string \<Rightarrow> exc + string" where
  "read_text_file env st p =
     (case resolve env st p of None \<Rightarrow> Inl (FileNotFoundError p)
      | Some q \<Rightarrow> (case files st q of None \<Rightarrow> Inl (FileNotFoundError p)
          | Some f \<Rightarrow> Inr (file_content f)))"

text \<open>
  \<^verbatim>\<open>atomic_write\<close>: the whole file is at the destination afterwards, or the call raised
  and nothing is there that was not before.
\<close>

definition atomic_write ::
  "env \<Rightarrow> string \<Rightarrow> string \<Rightarrow> storage_root \<Rightarrow> (exc + unit) \<times> storage_root" where
  "atomic_write env bytes p st =
     (case atomic_write_error env p of Some e \<Rightarrow> (Inl e, st)
      | None \<Rightarrow> (case resolve env st p of None \<Rightarrow> (Inl (FileNotFoundError p), st)
          | Some q \<Rightarrow>
              (Inr (), st\<lparr>files := (files st)(q \<mapsto> \<lparr>file_content = bytes, file_mtime = now env\<rparr>)\<rparr>)))"

text \<open>
  \<^verbatim>\<open>atomic_symlink(source, link)\<close>. The one symlink of the StorageRoot is \<^verbatim>\<open>current\<close>; a
  link made anywhere else is outside it.
\<close>

definition atomic_symlink ::
  "env \<Rightarrow> string \<Rightarrow> string \<Rightarrow> storage_root \<Rightarrow> (exc + unit) \<times> storage_root" where
  "atomic_symlink env src link st =
     (case atomic_symlink_error env link of Some e \<Rightarrow> (Inl e, st)
      | None \<Rightarrow> (Inr (), if link = current_link env then st\<lparr>current := Some src\<rparr> else st))"

text \<open>\<^verbatim>\<open>bytes.encode("ascii")\<close>: every byte below 128, or \<^verbatim>\<open>UnicodeEncodeError\<close>.\<close>

definition encode_ascii :: "string \<Rightarrow> exc + string" where
  "encode_ascii s =
     (if list_all (\<lambda>c. (of_char c :: nat) < 128) s then Inr s
      else Inl (UnicodeEncodeError ''ascii codec cannot encode character''))"

subsection \<open>The change detector\<close>

text \<open>
  \<^verbatim>\<open>meta_contains(storage, content)\<close>: the result, and the StorageRoot with the
  timestamp of the file touched.
\<close>

definition meta_contains ::
  "env \<Rightarrow> string \<Rightarrow> string \<Rightarrow> storage_root \<Rightarrow> (exc + bool) \<times> storage_root" where
  "meta_contains env storage content st =
     (let current_meta = os_path_join storage [''current'', ''maas.meta''];
          exists = isfile env st current_meta;
          st1 = (if exists then utime env current_meta st else st)
      in if exists
         then (case read_text_file env st1 current_meta of
                 Inl e \<Rightarrow> (Inl e, st1)
               | Inr stored \<Rightarrow> (Inr (content = stored), st1))
         else (Inr False, st1))"

subsection \<open>The run and its trace\<close>

text \<open>
  A run changes the StorageRoot and talks to the outside. The trace lists, in order, the
  calls \<^verbatim>\<open>import_images\<close> makes to the stages of the pipeline (\<open>Call\<close>), the events sent
  to the region, the log lines, and the commands run against the target daemon.
\<close>

datatype call =
    WriteAllKeyrings
  | DownloadAllImageDescriptions
  | MapProducts
  | DownloadAllBootResources
  | UpdateIscsiTargets string
  | WriteSnapshotMetadata string
  | WriteTargetsConf string
  | LinkBootloaders string
  | UpdateCurrentSymlink string string
  | CleanupSnapshotsAndCache string

datatype event_type = RACK_IMPORT_WARNING | RACK_IMPORT_ERROR | RACK_IMPORT_INFO

datatype log_level = Info | Warning | Error

text \<open>
  A message is a \<^verbatim>\<open>str\<close>, but for the one \<^verbatim>\<open>link_bootloaders\<close> builds, which is the
  pair of a format string and a name (the source writes a comma where the format
  operator would stand).
\<close>

datatype message = Text string | Pair string string

datatype event =
    Call call
  | RackEvent event_type message
  | MaasLog log_level message
  | EnsureService string
  | TgtAdmin string
  | LinkBootloader string string

record world =
  fs :: storage_root
  trace :: "event list"

definition emit :: "event \<Rightarrow> world \<Rightarrow> world" where
  "emit ev w = w\<lparr>trace := trace w @ [ev]\<rparr>"

definition try_send_rack_event :: "event_type \<Rightarrow> message \<Rightarrow> world \<Rightarrow> world" where
  "try_send_rack_event t msg w = emit (RackEvent t msg) w"

definition maaslog :: "log_level \<Rightarrow> message \<Rightarrow> world \<Rightarrow> world" where
  "maaslog lvl msg w = emit (MaasLog lvl msg) w"

fun calls :: "event list \<Rightarrow> call list" where
  "calls [] = []"
| "calls (Call c # evs) = c # calls evs"
| "calls (_ # evs) = calls evs"

subsection \<open>The snapshot committer's steps\<close>

text \<open>
  \<^verbatim>\<open>link_bootloaders\<close>: the loop over the registry. Whatever a method raises is
  caught, sent as an error event and logged, and the loop goes on.
\<close>

fun link_bootloaders_loop :: "env \<Rightarrow> string \<Rightarrow> string list \<Rightarrow> world \<Rightarrow> world" where
  "link_bootloaders_loop env destination [] w = w"
| "link_bootloaders_loop env destination (name # rest) w =
     (let w1 = emit (LinkBootloader name destination) w
      in case link_bootloader env name destination (fs w1) of
           (None, st) \<Rightarrow> link_bootloaders_loop env destination rest (w1\<lparr>fs := st\<rparr>)
         | (Some e, st) \<Rightarrow>
             (let msg = Pair ''Unable to link the %s bootloader.'' name;
                  w2 = try_send_rack_event RACK_IMPORT_ERROR msg (w1\<lparr>fs := st\<rparr>);
                  w3 = maaslog Error msg w2
              in link_bootloaders_loop env destination rest w3))"

definition link_bootloaders :: "env \<Rightarrow> string \<Rightarrow> world \<Rightarrow> world" where
  "link_bootloaders env destination w =
     link_bootloaders_loop env destination (boot_methods env)
       (emit (Call (LinkBootloaders destination)) w)"

definition update_current_symlink ::
  "env \<Rightarrow> string \<Rightarrow> string \<Rightarrow> world \<Rightarrow> (exc + unit) \<times> world" where
  "update_current_symlink env storage latest_snapshot w =
     (let w1 = emit (Call (UpdateCurrentSymlink storage latest_snapshot)) w
      in case atomic_symlink env latest_snapshot (os_path_join storage [''current'']) (fs w1) of
           (r, st) \<Rightarrow> (r, w1\<lparr>fs := st\<rparr>))"

definition write_snapshot_metadata ::
  "env \<Rightarrow> string \<Rightarrow> string \<Rightarrow> world \<Rightarrow> (exc + unit) \<times> world" where
  "write_snapshot_metadata env snapshot meta_file_content w =
     (let w1 = emit (Call (WriteSnapshotMetadata snapshot)) w;
          meta_file = os_path_join snapshot [''maas.meta'']
      in case encode_ascii meta_file_content of
           Inl e \<Rightarrow> (Inl e, w1)
         | Inr bytes \<Rightarrow>
             (case atomic_write env bytes meta_file (fs w1) of
                (r, st) \<Rightarrow> (r, w1\<lparr>fs := st\<rparr>)))"

definition write_targets_conf :: "env \<Rightarrow> string \<Rightarrow> world \<Rightarrow> (exc + unit) \<times> world" where
  "write_targets_conf env snapshot w =
     (let w1 = emit (Call (WriteTargetsConf snapshot)) w;
          targets_conf = os_path_join snapshot [''maas.tgt''];
          targets_conf_content =
            compose_targets_conf (list_boot_images env (fs w1)) (isfile env (fs w1)) snapshot
      in case atomic_write env targets_conf_content targets_conf (fs w1) of
           (r, st) \<Rightarrow> (r, w1\<lparr>fs := st\<rparr>))"

subsection \<open>The target registrar\<close>

definition update_targets_conf :: "env \<Rightarrow> string \<Rightarrow> world \<Rightarrow> (exc + unit) \<times> world" where
  "update_targets_conf env snapshot w =
     (let w1 = emit (EnsureService ''tgt'') w
      in case ensure_service env ''tgt'' of
           Some e \<Rightarrow> (Inl e, w1)
         | None \<Rightarrow>
             (let targets_conf = os_path_join snapshot [''maas.tgt'']
              in if \<not> path_exists env (fs w1) targets_conf then (Inr (), w1)
                 else
                   (let w2 = emit (TgtAdmin targets_conf) w1
                    in case tgt_admin env targets_conf of
                         None \<Rightarrow> (Inr (), w2)
                       | Some e \<Rightarrow>
                           if is_ExternalProcessError e
                           then (let msg = Text (''Unable to update TGT config: '' @ exc_str e);
                                     w3 = try_send_rack_event RACK_IMPORT_WARNING msg w2;
                                     w4 = maaslog Warning msg w3
                                 in (Inr (), w4))
                           else (Inl e, w2))))"

definition update_iscsi_targets :: "env \<Rightarrow> string \<Rightarrow> world \<Rightarrow> (exc + unit) \<times> world" where
  "update_iscsi_targets env snapshot_path w =
     (let w1 = emit (Call (UpdateIscsiTargets snapshot_path)) w;
          w2 = maaslog Info (Text ''Updating boot image iSCSI targets.'') w1
      in update_targets_conf env snapshot_path w2)"

subsection \<open>The reaper\<close>

text \<open>
  Modelled from the spec: \<^verbatim>\<open>cleanup_snapshots_and_cache\<close> of
  \<^verbatim>\<open>provisioningserver.import_images.cleanup\<close> is not among the source files. Section 4.4
  of the specification gives its contract: it never deletes the Snapshot referenced by the
  Current Pointer, never deletes a Cache entry referenced by a remaining Snapshot, and
  deletes everything else. A Snapshot goes with the files below its directory.
\<close>

definition reap :: "storage_root \<Rightarrow> storage_root" where
  "reap st =
     (let keep = (case current st of None \<Rightarrow> {} | Some t \<Rightarrow> {t});
          gone = snapshots st - keep
      in st\<lparr>snapshots := snapshots st \<inter> keep,
            files := (\<lambda>p. if \<exists>d\<in>gone. take (length d + 1) p = d @ ''/'' then None
                          else files st p),
            cache := (\<lambda>c. case cache st c of None \<Rightarrow> None
                          | Some refs \<Rightarrow>
                              if refs \<inter> snapshots st \<inter> keep = {} then None
                              else Some (refs \<inter> snapshots st \<inter> keep))\<rparr>)"

definition cleanup_snapshots_and_cache :: "string \<Rightarrow> world \<Rightarrow> world" where
  "cleanup_snapshots_and_cache storage w =
     (let w1 = emit (Call (CleanupSnapshotsAndCache storage)) w
      in w1\<lparr>fs := reap (fs w1)\<rparr>)"

subsection \<open>The orchestrator\<close>

text \<open>The band-aid of \<^verbatim>\<open>import_images\<close>: \<^verbatim>\<open>keyring_data\<close> that is not bytes is encoded.\<close>

definition encode_keyring_data :: "source \<Rightarrow> source" where
  "encode_keyring_data src =
     (case keyring_data src of
        Some (KeyringStr s) \<Rightarrow> src\<lparr>keyring_data := Some (KeyringBytes s)\<rparr>
      | _ \<Rightarrow> src)"

text \<open>
  \<^verbatim>\<open>import_images(sources)\<close>: the value returned or the exception raised, and the world
  the run leaves. An exception a callee raises outside a \<^verbatim>\<open>try\<close> leaves the function
  at once.
\<close>

definition import_images :: "env \<Rightarrow> source list \<Rightarrow> world \<Rightarrow> (exc + bool) \<times> world" where
  "import_images env sources w =
     (if length sources = 0
      then (let msg = Text (''Can'' @ [CHR 0x27] @ ''t import: region did not provide a source.'');
                w1 = try_send_rack_event RACK_IMPORT_WARNING msg w;
                w2 = maaslog Warning msg w1
            in (Inr False, w2))
      else
       (let msg = Text ''Starting rack boot image import'';
            w1 = maaslog Info msg w;
            w2 = try_send_rack_event RACK_IMPORT_INFO msg w1;
            storage = config_storage env;
            sources1 = map encode_keyring_data sources;
            w3 = emit (Call WriteAllKeyrings) w2
        in case write_all_keyrings env (keyrings_path env) sources1 of
             Inl e \<Rightarrow> (Inl e, w3)
           | Inr sources2 \<Rightarrow>
        (let w4 = emit (Call DownloadAllImageDescriptions) w3
         in case download_all_image_descriptions env sources2 of
              Inl e \<Rightarrow> (Inl e, w4)
            | Inr image_descriptions \<Rightarrow>
         if is_empty image_descriptions
         then (case update_iscsi_targets env (os_path_join storage [''current'']) w4 of
                 (Inl e, w5) \<Rightarrow> (Inl e, w5)
               | (Inr _, w5) \<Rightarrow>
                   (let msg1 = Text (''Finished importing boot images, the region does not have ''
                                     @ ''any boot images available.'');
                        w6 = try_send_rack_event RACK_IMPORT_WARNING msg1 w5;
                        w7 = maaslog Warning msg1 w6
                    in (Inr False, w7)))
         else
         (let meta_file_content = dump_json image_descriptions
          in case meta_contains env storage meta_file_content (fs w4) of
               (Inl e, st) \<Rightarrow> (Inl e, w4\<lparr>fs := st\<rparr>)
             | (Inr unchanged, st) \<Rightarrow>
          if unchanged
          then (case update_iscsi_targets env (os_path_join storage [''current''])
                       (w4\<lparr>fs := st\<rparr>) of
                  (Inl e, w5) \<Rightarrow> (Inl e, w5)
                | (Inr _, w5) \<Rightarrow>
                    (let w6 = maaslog Info
                                (Text (''Finished importing boot images, the region does not ''
                                       @ ''have any new images.'')) w5;
                         w7 = try_send_rack_event RACK_IMPORT_INFO msg w6;
                         w8 = maaslog Info msg w7
                     in (Inr False, w8)))
          else
          (let w5 = emit (Call MapProducts) (w4\<lparr>fs := st\<rparr>)
           in case map_products env image_descriptions of
                Inl e \<Rightarrow> (Inl e, w5)
              | Inr product_mapping \<Rightarrow>
           (let w6 = emit (Call DownloadAllBootResources) w5
            in case download_all_boot_resources env sources2 storage product_mapping (fs w6) of
                 (Inl e, st1) \<Rightarrow>
                   if is_Exception e
                   then (let w7 = try_send_rack_event RACK_IMPORT_ERROR
                                    (Text (''Unable to import boot images: '' @ exc_str e))
                                    (w6\<lparr>fs := st1\<rparr>)
                         in case update_iscsi_targets env (os_path_join storage [''current'']) w7 of
                              (Inl e1, w8) \<Rightarrow> (Inl e1, w8)
                            | (Inr _, w8) \<Rightarrow>
                                (let w9 = maaslog Error
                                            (Text (''Unable to import boot images; cleaning up ''
                                                   @ ''failed snapshot and cache.'')) w8;
                                     w10 = cleanup_snapshots_and_cache storage w9
                                 in (Inl e, w10)))
                   else (Inl e, w6\<lparr>fs := st1\<rparr>)
               | (Inr snapshot_path, st1) \<Rightarrow>
            (let w7 = maaslog Info (Text ''Writing boot image metadata and iSCSI targets.'')
                        (w6\<lparr>fs := st1\<rparr>)
             in case write_snapshot_metadata env snapshot_path meta_file_content w7 of
                  (Inl e, w8) \<Rightarrow> (Inl e, w8)
                | (Inr _, w8) \<Rightarrow>
             (case write_targets_conf env snapshot_path w8 of
                  (Inl e, w9) \<Rightarrow> (Inl e, w9)
                | (Inr _, w9) \<Rightarrow>
             (let w10 = maaslog Info (Text (''Linking boot images snapshot '' @ snapshot_path)) w9;
                  w11 = link_bootloaders env snapshot_path w10
              in case update_current_symlink env storage snapshot_path w11 of
                   (Inl e, w12) \<Rightarrow> (Inl e, w12)
                 | (Inr _, w12) \<Rightarrow>
              (case update_iscsi_targets env snapshot_path w12 of
                   (Inl e, w13) \<Rightarrow> (Inl e, w13)
                 | (Inr _, w13) \<Rightarrow>
              (let w14 = maaslog Info (Text ''Cleaning up old snapshots and cache.'') w13;
                   w15 = cleanup_snapshots_and_cache storage w14;
                   msg2 = Text ''Finished importing boot images.'';
                   w16 = maaslog Info msg2 w15;
                   w17 = try_send_rack_event RACK_IMPORT_INFO msg2 w16
               in (Inr True, w17))))))))))))"

subsection \<open>Observing a run\<close>

text \<open>
  The calls made during a run (the trace may hold earlier runs), and among them the
  invocations of the Target Registrar, by the path each was given.
\<close>

definition run_calls :: "env \<Rightarrow> source list \<Rightarrow> world \<Rightarrow> call list" where
  "run_calls env sources w =
     drop (length (calls (trace w))) (calls (trace (snd (import_images env sources w))))"

fun registrar_calls :: "call list \<Rightarrow> string list" where
  "registrar_calls [] = []"
| "registrar_calls (UpdateIscsiTargets p # cs) = p # registrar_calls cs"
| "registrar_calls (_ # cs) = registrar_calls cs"

text \<open>
  What a step does to a StorageRoot and what it returns or raises, whatever the trace so
  far: the Target Registrar invoked for a path, the two writes of the committer, the
  linking of the boot loaders, and the swap of the Current Pointer.
\<close>

definition registrar_result :: "env \<Rightarrow> storage_root \<Rightarrow> string \<Rightarrow> exc + unit" where
  "registrar_result env st p = fst (update_iscsi_targets env p \<lparr>fs = st, trace = []\<rparr>)"

definition metadata_write ::
  "env \<Rightarrow> string \<Rightarrow> string \<Rightarrow> storage_root \<Rightarrow> (exc + unit) \<times> storage_root" where
  "metadata_write env snapshot meta_file_content st =
     (case write_snapshot_metadata env snapshot meta_file_content \<lparr>fs = st, trace = []\<rparr> of
        (r, w) \<Rightarrow> (r, fs w))"

definition targets_write :: "env \<Rightarrow> string \<Rightarrow> storage_root \<Rightarrow> (exc + unit) \<times> storage_root" where
  "targets_write env snapshot st =
     (case write_targets_conf env snapshot \<lparr>fs = st, trace = []\<rparr> of (r, w) \<Rightarrow> (r, fs w))"

definition bootloaders_linked :: "env \<Rightarrow> string \<Rightarrow> storage_root \<Rightarrow> storage_root" where
  "bootloaders_linked env destination st =
     fs (link_bootloaders env destination \<lparr>fs = st, trace = []\<rparr>)"

definition pointer_swap :: "env \<Rightarrow> string \<Rightarrow> storage_root \<Rightarrow> (exc + unit) \<times> storage_root" where
  "pointer_swap env latest_snapshot st =
     (case update_current_symlink env (config_storage env) latest_snapshot
             \<lparr>fs = st, trace = []\<rparr> of
        (r, w) \<Rightarrow> (r, fs w))"

text \<open>The calls every run that reaches the staging phase has made by then.\<close>

definition staged_calls :: "call list" where
  "staged_calls =
     [WriteAllKeyrings, DownloadAllImageDescriptions, MapProducts, DownloadAllBootResources]"

text \<open>
  The runs that reach the staging phase, that is the call of the downloader: what the
  downloader returned or raised, the StorageRoot it left, and the candidate Metadata
  Record. \<open>None\<close> for a run that ends before: no source, a collaborator that raised, an
  empty catalog, an unchanged catalog.
\<close>

definition download_outcome ::
  "env \<Rightarrow> source list \<Rightarrow> world \<Rightarrow> ((exc + string) \<times> storage_root \<times> string) option" where
  "download_outcome env sources w =
     (if length sources = 0 then None
      else case write_all_keyrings env (keyrings_path env) (map encode_keyring_data sources) of
             Inl e \<Rightarrow> None
           | Inr sources2 \<Rightarrow>
       (case download_all_image_descriptions env sources2 of
             Inl e \<Rightarrow> None
           | Inr image_descriptions \<Rightarrow>
        if is_empty image_descriptions then None
        else
        (case meta_contains env (config_storage env) (dump_json image_descriptions) (fs w) of
             (Inl e, st) \<Rightarrow> None
           | (Inr unchanged, st) \<Rightarrow>
         if unchanged then None
         else
         (case map_products env image_descriptions of
             Inl e \<Rightarrow> None
           | Inr product_mapping \<Rightarrow>
          (case download_all_boot_resources env sources2 (config_storage env)
                  product_mapping st of
             (r, st1) \<Rightarrow> Some (r, st1, dump_json image_descriptions))))))"

subsection \<open>Example runs\<close>

text \<open>
  A StorageRoot at \<^verbatim>\<open>/s\<close> whose active Snapshot \<^verbatim>\<open>/s/snapshot-1\<close> holds the Metadata
  Record \<^verbatim>\<open>[1]\<close>, and the same with a stale Snapshot \<^verbatim>\<open>/s/snapshot-0\<close> beside it.
\<close>

definition ex_fs :: storage_root where
  "ex_fs = \<lparr>current = Some ''/s/snapshot-1'',
            snapshots = {''/s/snapshot-1''},
            files = [''/s/snapshot-1/maas.meta'' \<mapsto> \<lparr>file_content = ''[1]'', file_mtime = 5\<rparr>,
                     ''/s/snapshot-1/maas.tgt'' \<mapsto> \<lparr>file_content = [], file_mtime = 5\<rparr>],
            cache = [''c1'' \<mapsto> {''/s/snapshot-1''}]\<rparr>"

definition ex_fs_stale :: storage_root where
  "ex_fs_stale = ex_fs\<lparr>snapshots := {''/s/snapshot-0'', ''/s/snapshot-1''}\<rparr>"

definition ex_world :: world where
  "ex_world = \<lparr>fs = ex_fs, trace = []\<rparr>"

definition ex_world_stale :: world where
  "ex_world_stale = \<lparr>fs = ex_fs_stale, trace = []\<rparr>"

definition ex_source :: source where
  "ex_source = \<lparr>url = ''http://region/images'', keyring_data = Some (KeyringStr ''k'')\<rparr>"

definition ex_image :: boot_image where
  "ex_image = \<lparr>osystem = ''ubuntu'', architecture = ''amd64'', subarchitecture = ''generic'',
                release = ''xenial'', label = ''release''\<rparr>"

definition ex_image_bionic :: boot_image where
  "ex_image_bionic = ex_image\<lparr>release := ''bionic''\<rparr>"

text \<open>
  A downloader that stages \<^verbatim>\<open>/s/snapshot-2\<close> with one squashfs image and one new cache
  entry, and one that raises after staging the directory and the cache entry.
\<close>

definition ex_staged :: "storage_root \<Rightarrow> storage_root" where
  "ex_staged st =
     st\<lparr>snapshots := insert ''/s/snapshot-2'' (snapshots st),
        cache := (cache st)(''c2'' \<mapsto> {''/s/snapshot-2''})\<rparr>"

definition ex_download ::
  "source list \<Rightarrow> string \<Rightarrow> product_mapping \<Rightarrow> storage_root \<Rightarrow> (exc + string) \<times> storage_root" where
  "ex_download srcs storage_dir pm st =
     (Inr ''/s/snapshot-2'',
      (ex_staged st)\<lparr>files := (files st)
         (''/s/snapshot-2/ubuntu/amd64/generic/xenial/release/squashfs''
            \<mapsto> \<lparr>file_content = ''img'', file_mtime = 7\<rparr>)\<rparr>)"

definition ex_download_fails ::
  "source list \<Rightarrow> string \<Rightarrow> product_mapping \<Rightarrow> storage_root \<Rightarrow> (exc + string) \<times> storage_root" where
  "ex_download_fails srcs storage_dir pm st =
     (Inl (OtherException ''connection reset''), ex_staged st)"

text \<open>
  An environment in which every collaborator but the boot loader succeeds and the
  catalog is \<^verbatim>\<open>[2]\<close>, and variants of it: the catalog of the active Snapshot, an empty
  catalog, a failing download, a full disk, a disk that fills up once the Metadata
  Record is written, a target daemon that cannot be started, one that rejects the
  reload.
\<close>

definition ex_env :: env where
  "ex_env = \<lparr>config_storage = ''/s'', now = 9, keyrings_path = ''/tmp/keyrings'',
             list_boot_images = (\<lambda>st p. [ex_image, ex_image]),
             ensure_service = (\<lambda>name. None),
             tgt_admin = (\<lambda>conf. None),
             atomic_write_error = (\<lambda>p. None),
             atomic_symlink_error = (\<lambda>p. None),
             boot_methods = [''pxe''],
             link_bootloader = (\<lambda>name dest st. (Some (OtherException ''no loader''), st)),
             write_all_keyrings = (\<lambda>p srcs. Inr srcs),
             download_all_image_descriptions =
               (\<lambda>srcs. Inr \<lparr>is_empty = False, dump_json = ''[2]''\<rparr>),
             map_products = (\<lambda>d. Inr []),
             download_all_boot_resources = ex_download\<rparr>"


definition ex_env_empty :: env where
  "ex_env_empty =
     ex_env\<lparr>download_all_image_descriptions :=
               (\<lambda>srcs. Inr \<lparr>is_empty = True, dump_json = ''[]''\<rparr>)\<rparr>"

definition ex_env_download_fails :: env where
  "ex_env_download_fails = ex_env\<lparr>download_all_boot_resources := ex_download_fails\<rparr>"

definition ex_env_disk_full :: env where
  "ex_env_disk_full =
     ex_env\<lparr>atomic_write_error := (\<lambda>p. Some (OtherException ''No space left on device''))\<rparr>"

definition ex_env_descriptor_unwritable :: env where
  "ex_env_descriptor_unwritable =
     ex_env\<lparr>atomic_write_error :=
               (\<lambda>p. if p = ''/s/snapshot-2/maas.tgt''
                    then Some (OtherException ''No space left on device'') else None)\<rparr>"

definition ex_env_tgt_down :: env where
  "ex_env_tgt_down =
     ex_env\<lparr>ensure_service := (\<lambda>name. Some (OtherException ''tgt did not start''))\<rparr>"

definition ex_env_tgt_rejects :: env where
  "ex_env_tgt_rejects =
     ex_env\<lparr>tgt_admin := (\<lambda>conf. Some (ExternalProcessError ''tgt-admin exited with 22''))\<rparr>"

text \<open>
  In the words of the specification: the Metadata Record stored in the Snapshot that the
  Current Pointer names, if there is a Current Pointer and that Snapshot has one.
\<close>

definition active_metadata_record :: "storage_root \<Rightarrow> string option" where
  "active_metadata_record st =
     (case current st of None \<Rightarrow> None
      | Some t \<Rightarrow> map_option file_content (files st (t @ ''/maas.meta'')))"


section \<open>Properties\<close>

subsection \<open>Paths below the current link\<close>

lemma os_path_join_current:
  "os_path_join s [''current''] =
     (if s = [] \<or> last s = CHR ''/'' then s @ ''current'' else s @ ''/current'')"
  by simp

lemma current_meta_path:
  "os_path_join s [''current'', ''maas.meta''] = os_path_join s [''current''] @ ''/maas.meta''"
  by simp

lemma resolve_below_current:
  "resolve env st (current_link env @ CHR ''/'' # name) =
     (case current st of None \<Rightarrow> None | Some t \<Rightarrow> Some (t @ CHR ''/'' # name))"
  by (simp add: resolve_def Let_def split: option.splits)

subsection \<open>The change detector\<close>

lemma meta_contains_result:
  "fst (meta_contains env (config_storage env) content st) =
     Inr (active_metadata_record st = Some content)"
proof -
  let ?p = "os_path_join (config_storage env) [''current'', ''maas.meta'']"
  have p: "?p = current_link env @ CHR ''/'' # ''maas.meta''"
    unfolding current_link_def current_meta_path by simp
  show ?thesis
  proof (cases "current st")
    case None
    then show ?thesis
      unfolding meta_contains_def Let_def p
      by (simp add: isfile_def resolve_below_current active_metadata_record_def)
  next
    case (Some t)
    then show ?thesis
      unfolding meta_contains_def Let_def p
      by (auto simp: isfile_def utime_def read_text_file_def resolve_below_current
            active_metadata_record_def split: option.splits)
  qed
qed

subsection \<open>What each step does to the trace and to the StorageRoot\<close>

lemma calls_append [simp]: "calls (xs @ ys) = calls xs @ calls ys"
  by (induction xs rule: calls.induct) auto

lemma registrar_calls_append [simp]:
  "registrar_calls (xs @ ys) = registrar_calls xs @ registrar_calls ys"
  by (induction xs rule: registrar_calls.induct) auto

lemma fs_emit [simp]: "fs (emit ev w) = fs w"
  by (simp add: emit_def)

lemma trace_emit [simp]: "trace (emit ev w) = trace w @ [ev]"
  by (simp add: emit_def)

lemma fs_log [simp]:
  "fs (maaslog lvl msg w) = fs w" "fs (try_send_rack_event t msg w) = fs w"
  by (simp_all add: maaslog_def try_send_rack_event_def)

lemma calls_log [simp]:
  "calls (trace (maaslog lvl msg w)) = calls (trace w)"
  "calls (trace (try_send_rack_event t msg w)) = calls (trace w)"
  by (simp_all add: maaslog_def try_send_rack_event_def)

lemma update_targets_conf_fs: "fs (snd (update_targets_conf env p w)) = fs w"
  by (simp add: update_targets_conf_def Let_def split: option.splits)

lemma update_targets_conf_calls:
  "calls (trace (snd (update_targets_conf env p w))) = calls (trace w)"
  by (simp add: update_targets_conf_def Let_def split: option.splits)

lemma update_iscsi_targets_fs: "fs (snd (update_iscsi_targets env p w)) = fs w"
  by (simp add: update_iscsi_targets_def Let_def update_targets_conf_fs)

lemma update_iscsi_targets_calls:
  "calls (trace (snd (update_iscsi_targets env p w))) = calls (trace w) @ [UpdateIscsiTargets p]"
  by (simp add: update_iscsi_targets_def Let_def update_targets_conf_calls)

lemma link_bootloaders_loop_calls:
  "calls (trace (link_bootloaders_loop env d ms w)) = calls (trace w)"
  by (induction ms arbitrary: w) (auto simp: Let_def split: prod.splits option.splits)

lemma link_bootloaders_calls:
  "calls (trace (link_bootloaders env d w)) = calls (trace w) @ [LinkBootloaders d]"
  by (simp add: link_bootloaders_def link_bootloaders_loop_calls)

lemma write_snapshot_metadata_calls:
  "calls (trace (snd (write_snapshot_metadata env sp c w))) = calls (trace w) @ [WriteSnapshotMetadata sp]"
  by (simp add: write_snapshot_metadata_def Let_def split: sum.splits prod.splits)

lemma write_targets_conf_calls:
  "calls (trace (snd (write_targets_conf env sp w))) = calls (trace w) @ [WriteTargetsConf sp]"
  by (simp add: write_targets_conf_def Let_def split: sum.splits prod.splits)

lemma update_current_symlink_calls:
  "calls (trace (snd (update_current_symlink env s sp w))) = calls (trace w) @ [UpdateCurrentSymlink s sp]"
  by (simp add: update_current_symlink_def Let_def split: sum.splits prod.splits)

lemma cleanup_calls:
  "calls (trace (cleanup_snapshots_and_cache s w)) = calls (trace w) @ [CleanupSnapshotsAndCache s]"
  by (simp add: cleanup_snapshots_and_cache_def Let_def)

lemma cleanup_fs: "fs (cleanup_snapshots_and_cache s w) = reap (fs w)"
  by (simp add: cleanup_snapshots_and_cache_def Let_def)


lemma update_targets_conf_fst:
  "fst (update_targets_conf env p w) = fst (update_targets_conf env p \<lparr>fs = fs w, trace = tr\<rparr>)"
  by (simp add: update_targets_conf_def Let_def split: option.splits)

lemma update_iscsi_targets_fst:
  "fst (update_iscsi_targets env p w) = registrar_result env (fs w) p"
  unfolding registrar_result_def update_iscsi_targets_def Let_def
  by (subst update_targets_conf_fst [where tr = "[]"], subst (2) update_targets_conf_fst [where tr = "[]"]) simp

lemma write_snapshot_metadata_fst:
  "fst (write_snapshot_metadata env sp c w) = fst (metadata_write env sp c (fs w))"
  by (simp add: metadata_write_def write_snapshot_metadata_def Let_def split: sum.splits prod.splits)

lemma write_snapshot_metadata_fs:
  "fs (snd (write_snapshot_metadata env sp c w)) = snd (metadata_write env sp c (fs w))"
  by (simp add: metadata_write_def write_snapshot_metadata_def Let_def split: sum.splits prod.splits)

lemma write_targets_conf_fst:
  "fst (write_targets_conf env sp w) = fst (targets_write env sp (fs w))"
  by (simp add: targets_write_def write_targets_conf_def Let_def split: sum.splits prod.splits)

lemma write_targets_conf_fs:
  "fs (snd (write_targets_conf env sp w)) = snd (targets_write env sp (fs w))"
  by (simp add: targets_write_def write_targets_conf_def Let_def split: sum.splits prod.splits)

lemma link_bootloaders_loop_fs:
  "fs w = fs w' \<Longrightarrow> fs (link_bootloaders_loop env d ms w) = fs (link_bootloaders_loop env d ms w')"
proof (induction ms arbitrary: w w')
  case Nil
  then show ?case by simp
next
  case (Cons m ms)
  show ?case
  proof (cases "link_bootloader env m d (fs w)")
    case (Pair r st)
    then show ?thesis
      using Cons.prems
      by (cases r) (auto simp: Let_def intro!: Cons.IH)
  qed
qed

lemma link_bootloaders_fs:
  "fs (link_bootloaders env d w) = bootloaders_linked env d (fs w)"
  unfolding bootloaders_linked_def link_bootloaders_def
  by (rule link_bootloaders_loop_fs) simp

lemma update_current_symlink_fst:
  "fst (update_current_symlink env (config_storage env) sp w) = fst (pointer_swap env sp (fs w))"
  by (simp add: pointer_swap_def update_current_symlink_def Let_def split: sum.splits prod.splits)

lemma update_current_symlink_fs:
  "fs (snd (update_current_symlink env (config_storage env) sp w)) = snd (pointer_swap env sp (fs w))"
  by (simp add: pointer_swap_def update_current_symlink_def Let_def split: sum.splits prod.splits)




lemma reap_current: "current (reap st) = current st"
  by (simp add: reap_def Let_def)

lemma reap_snapshots:
  "snapshots (reap st) = snapshots st \<inter> (case current st of None \<Rightarrow> {} | Some t \<Rightarrow> {t})"
  by (simp add: reap_def Let_def)

lemma reap_cache: "dom (cache (reap st)) \<subseteq> dom (cache st)"
  by (auto simp: reap_def Let_def split: option.splits if_splits)

lemma atomic_write_frame:
  assumes "atomic_write env b p st = (r, st')"
  shows "current st' = current st" "snapshots st' = snapshots st" "cache st' = cache st"
    and "r \<noteq> Inr () \<Longrightarrow> st' = st"
  using assms by (auto simp: atomic_write_def split: option.splits)

lemma metadata_write_frame:
  assumes "metadata_write env sp c st = (r, st')"
  shows "current st' = current st" "snapshots st' = snapshots st" "cache st' = cache st"
    and "r \<noteq> Inr () \<Longrightarrow> st' = st"
  using assms
  by (auto simp: metadata_write_def write_snapshot_metadata_def Let_def
        split: sum.splits prod.splits dest: atomic_write_frame)

lemma targets_write_frame:
  assumes "targets_write env sp st = (r, st')"
  shows "current st' = current st" "snapshots st' = snapshots st" "cache st' = cache st"
    and "r \<noteq> Inr () \<Longrightarrow> st' = st"
  using assms
  by (auto simp: targets_write_def write_targets_conf_def Let_def
        split: sum.splits prod.splits dest: atomic_write_frame)

lemma pointer_swap_cases:
  assumes "pointer_swap env sp st = (r, st')"
  shows "r = Inr () \<Longrightarrow> st' = st\<lparr>current := Some sp\<rparr>"
    and "r \<noteq> Inr () \<Longrightarrow> st' = st"
  using assms
  by (auto simp: pointer_swap_def update_current_symlink_def atomic_symlink_def Let_def
        current_link_def split: option.splits)


subsection \<open>The branches of a run\<close>

lemma download_outcomeD:
  assumes "download_outcome env sources w = Some (r, st1, c)"
  obtains sources2 d pm st where
    "sources \<noteq> []"
    "write_all_keyrings env (keyrings_path env) (map encode_keyring_data sources) = Inr sources2"
    "download_all_image_descriptions env sources2 = Inr d"
    "\<not> is_empty d"
    "meta_contains env (config_storage env) (dump_json d) (fs w) = (Inr False, st)"
    "map_products env d = Inr pm"
    "download_all_boot_resources env sources2 (config_storage env) pm st = (r, st1)"
    "c = dump_json d"
  using assms unfolding download_outcome_def
  by (auto split: if_splits sum.splits prod.splits)


lemma staged_failure:
  assumes out: "download_outcome env sources w = Some (Inl e, st1, c)" and exc: "is_Exception e"
  shows "fst (import_images env sources w) =
           (case registrar_result env st1 (current_link env) of Inl e1 \<Rightarrow> Inl e1 | Inr u \<Rightarrow> Inl e)"
    and "fs (snd (import_images env sources w)) =
           (case registrar_result env st1 (current_link env) of Inl e1 \<Rightarrow> st1 | Inr u \<Rightarrow> reap st1)"
    and "calls (trace (snd (import_images env sources w))) =
           calls (trace w) @ staged_calls @ [UpdateIscsiTargets (current_link env)]
           @ (case registrar_result env st1 (current_link env) of Inl e1 \<Rightarrow> []
              | Inr u \<Rightarrow> [CleanupSnapshotsAndCache (config_storage env)])"
proof -
  from out obtain sources2 d pm st where f:
    "sources \<noteq> []"
    "write_all_keyrings env (keyrings_path env) (map encode_keyring_data sources) = Inr sources2"
    "download_all_image_descriptions env sources2 = Inr d"
    "\<not> is_empty d"
    "meta_contains env (config_storage env) (dump_json d) (fs w) = (Inr False, st)"
    "map_products env d = Inr pm"
    "download_all_boot_resources env sources2 (config_storage env) pm st = (Inl e, st1)"
    by (rule download_outcomeD)
  show "fst (import_images env sources w) =
           (case registrar_result env st1 (current_link env) of Inl e1 \<Rightarrow> Inl e1 | Inr u \<Rightarrow> Inl e)"
    unfolding import_images_def
    by (simp add: f exc Let_def split_beta update_iscsi_targets_fst current_link_def
          split: sum.splits)
  show "fs (snd (import_images env sources w)) =
           (case registrar_result env st1 (current_link env) of Inl e1 \<Rightarrow> st1 | Inr u \<Rightarrow> reap st1)"
    unfolding import_images_def
    by (simp add: f exc Let_def split_beta update_iscsi_targets_fst update_iscsi_targets_fs
          cleanup_fs current_link_def split: sum.splits)
  show "calls (trace (snd (import_images env sources w))) =
           calls (trace w) @ staged_calls @ [UpdateIscsiTargets (current_link env)]
           @ (case registrar_result env st1 (current_link env) of Inl e1 \<Rightarrow> []
              | Inr u \<Rightarrow> [CleanupSnapshotsAndCache (config_storage env)])"
    unfolding import_images_def
    by (simp add: f exc Let_def split_beta update_iscsi_targets_fst update_iscsi_targets_calls
          cleanup_calls current_link_def staged_calls_def split: sum.splits)
qed

lemma staged_nonexception:
  assumes out: "download_outcome env sources w = Some (Inl e, st1, c)" and exc: "\<not> is_Exception e"
  shows "fst (import_images env sources w) = Inl e"
    and "fs (snd (import_images env sources w)) = st1"
    and "calls (trace (snd (import_images env sources w))) = calls (trace w) @ staged_calls"
proof -
  from out obtain sources2 d pm st where f:
    "sources \<noteq> []"
    "write_all_keyrings env (keyrings_path env) (map encode_keyring_data sources) = Inr sources2"
    "download_all_image_descriptions env sources2 = Inr d"
    "\<not> is_empty d"
    "meta_contains env (config_storage env) (dump_json d) (fs w) = (Inr False, st)"
    "map_products env d = Inr pm"
    "download_all_boot_resources env sources2 (config_storage env) pm st = (Inl e, st1)"
    by (rule download_outcomeD)
  show "fst (import_images env sources w) = Inl e"
    unfolding import_images_def by (simp add: f exc Let_def)
  show "fs (snd (import_images env sources w)) = st1"
    unfolding import_images_def by (simp add: f exc Let_def)
  show "calls (trace (snd (import_images env sources w))) = calls (trace w) @ staged_calls"
    unfolding import_images_def by (simp add: f exc Let_def staged_calls_def)
qed

lemma staged_meta_fail:
  assumes out: "download_outcome env sources w = Some (Inr sp, st1, c)"
    and m: "metadata_write env sp c st1 = (Inl e, st2)"
  shows "fst (import_images env sources w) = Inl e"
    and "fs (snd (import_images env sources w)) = st2"
    and "calls (trace (snd (import_images env sources w))) =
           calls (trace w) @ staged_calls @ [WriteSnapshotMetadata sp]"
proof -
  from out obtain sources2 d pm st where f:
    "sources \<noteq> []"
    "write_all_keyrings env (keyrings_path env) (map encode_keyring_data sources) = Inr sources2"
    "download_all_image_descriptions env sources2 = Inr d"
    "\<not> is_empty d"
    "meta_contains env (config_storage env) (dump_json d) (fs w) = (Inr False, st)"
    "map_products env d = Inr pm"
    "download_all_boot_resources env sources2 (config_storage env) pm st = (Inr sp, st1)"
    "c = dump_json d"
    by (rule download_outcomeD)
  have m': "metadata_write env sp (dump_json d) st1 = (Inl e, st2)"
    using m f(8) by simp
  note s = f(1-7) Let_def split_beta write_snapshot_metadata_fst
    write_snapshot_metadata_fs write_snapshot_metadata_calls m' staged_calls_def
  show "fst (import_images env sources w) = Inl e"
    unfolding import_images_def by (simp add: s)
  show "fs (snd (import_images env sources w)) = st2"
    unfolding import_images_def by (simp add: s)
  show "calls (trace (snd (import_images env sources w))) =
           calls (trace w) @ staged_calls @ [WriteSnapshotMetadata sp]"
    unfolding import_images_def by (simp add: s)
qed

lemma staged_tgt_fail:
  assumes out: "download_outcome env sources w = Some (Inr sp, st1, c)"
    and m: "metadata_write env sp c st1 = (Inr u, st2)"
    and t: "targets_write env sp st2 = (Inl e, st3)"
  shows "fst (import_images env sources w) = Inl e"
    and "fs (snd (import_images env sources w)) = st3"
    and "calls (trace (snd (import_images env sources w))) =
           calls (trace w) @ staged_calls @ [WriteSnapshotMetadata sp, WriteTargetsConf sp]"
proof -
  from out obtain sources2 d pm st where f:
    "sources \<noteq> []"
    "write_all_keyrings env (keyrings_path env) (map encode_keyring_data sources) = Inr sources2"
    "download_all_image_descriptions env sources2 = Inr d"
    "\<not> is_empty d"
    "meta_contains env (config_storage env) (dump_json d) (fs w) = (Inr False, st)"
    "map_products env d = Inr pm"
    "download_all_boot_resources env sources2 (config_storage env) pm st = (Inr sp, st1)"
    "c = dump_json d"
    by (rule download_outcomeD)
  have m': "metadata_write env sp (dump_json d) st1 = (Inr u, st2)"
    using m f(8) by simp
  note s = f(1-7) Let_def split_beta write_snapshot_metadata_fst
    write_snapshot_metadata_fs write_snapshot_metadata_calls m' t staged_calls_def
    write_targets_conf_fst write_targets_conf_fs write_targets_conf_calls
  show "fst (import_images env sources w) = Inl e"
    unfolding import_images_def by (simp add: s)
  show "fs (snd (import_images env sources w)) = st3"
    unfolding import_images_def by (simp add: s)
  show "calls (trace (snd (import_images env sources w))) =
           calls (trace w) @ staged_calls @ [WriteSnapshotMetadata sp, WriteTargetsConf sp]"
    unfolding import_images_def by (simp add: s)
qed

lemma staged_swap_fail:
  assumes out: "download_outcome env sources w = Some (Inr sp, st1, c)"
    and m: "metadata_write env sp c st1 = (Inr u, st2)"
    and t: "targets_write env sp st2 = (Inr u', st3)"
    and p: "pointer_swap env sp (bootloaders_linked env sp st3) = (Inl e, st4)"
  shows "fst (import_images env sources w) = Inl e"
    and "fs (snd (import_images env sources w)) = st4"
    and "calls (trace (snd (import_images env sources w))) =
           calls (trace w) @ staged_calls @ [WriteSnapshotMetadata sp, WriteTargetsConf sp,
             LinkBootloaders sp, UpdateCurrentSymlink (config_storage env) sp]"
proof -
  from out obtain sources2 d pm st where f:
    "sources \<noteq> []"
    "write_all_keyrings env (keyrings_path env) (map encode_keyring_data sources) = Inr sources2"
    "download_all_image_descriptions env sources2 = Inr d"
    "\<not> is_empty d"
    "meta_contains env (config_storage env) (dump_json d) (fs w) = (Inr False, st)"
    "map_products env d = Inr pm"
    "download_all_boot_resources env sources2 (config_storage env) pm st = (Inr sp, st1)"
    "c = dump_json d"
    by (rule download_outcomeD)
  have m': "metadata_write env sp (dump_json d) st1 = (Inr u, st2)"
    using m f(8) by simp
  note s = f(1-7) Let_def split_beta write_snapshot_metadata_fst
    write_snapshot_metadata_fs write_snapshot_metadata_calls m' t p staged_calls_def
    write_targets_conf_fst write_targets_conf_fs write_targets_conf_calls
    link_bootloaders_fs link_bootloaders_calls update_current_symlink_fst
    update_current_symlink_fs update_current_symlink_calls
  show "fst (import_images env sources w) = Inl e"
    unfolding import_images_def by (simp add: s)
  show "fs (snd (import_images env sources w)) = st4"
    unfolding import_images_def by (simp add: s)
  show "calls (trace (snd (import_images env sources w))) =
           calls (trace w) @ staged_calls @ [WriteSnapshotMetadata sp, WriteTargetsConf sp,
             LinkBootloaders sp, UpdateCurrentSymlink (config_storage env) sp]"
    unfolding import_images_def by (simp add: s)
qed

lemma staged_committed:
  assumes out: "download_outcome env sources w = Some (Inr sp, st1, c)"
    and m: "metadata_write env sp c st1 = (Inr u, st2)"
    and t: "targets_write env sp st2 = (Inr u', st3)"
    and p: "pointer_swap env sp (bootloaders_linked env sp st3) = (Inr u'', st4)"
  shows "fst (import_images env sources w) =
           (case registrar_result env st4 sp of Inl e \<Rightarrow> Inl e | Inr x \<Rightarrow> Inr True)"
    and "fs (snd (import_images env sources w)) =
           (case registrar_result env st4 sp of Inl e \<Rightarrow> st4 | Inr x \<Rightarrow> reap st4)"
    and "calls (trace (snd (import_images env sources w))) =
           calls (trace w) @ staged_calls @ [WriteSnapshotMetadata sp, WriteTargetsConf sp,
             LinkBootloaders sp, UpdateCurrentSymlink (config_storage env) sp,
             UpdateIscsiTargets sp]
           @ (case registrar_result env st4 sp of Inl e \<Rightarrow> []
              | Inr x \<Rightarrow> [CleanupSnapshotsAndCache (config_storage env)])"
proof -
  from out obtain sources2 d pm st where f:
    "sources \<noteq> []"
    "write_all_keyrings env (keyrings_path env) (map encode_keyring_data sources) = Inr sources2"
    "download_all_image_descriptions env sources2 = Inr d"
    "\<not> is_empty d"
    "meta_contains env (config_storage env) (dump_json d) (fs w) = (Inr False, st)"
    "map_products env d = Inr pm"
    "download_all_boot_resources env sources2 (config_storage env) pm st = (Inr sp, st1)"
    "c = dump_json d"
    by (rule download_outcomeD)
  have m': "metadata_write env sp (dump_json d) st1 = (Inr u, st2)"
    using m f(8) by simp
  note s = f(1-7) Let_def split_beta write_snapshot_metadata_fst
    write_snapshot_metadata_fs write_snapshot_metadata_calls m' t p staged_calls_def
    write_targets_conf_fst write_targets_conf_fs write_targets_conf_calls
    link_bootloaders_fs link_bootloaders_calls update_current_symlink_fst
    update_current_symlink_fs update_current_symlink_calls
    update_iscsi_targets_fst update_iscsi_targets_fs update_iscsi_targets_calls
    cleanup_fs cleanup_calls
  show "fst (import_images env sources w) =
           (case registrar_result env st4 sp of Inl e \<Rightarrow> Inl e | Inr x \<Rightarrow> Inr True)"
    unfolding import_images_def by (simp add: s split: sum.splits)
  show "fs (snd (import_images env sources w)) =
           (case registrar_result env st4 sp of Inl e \<Rightarrow> st4 | Inr x \<Rightarrow> reap st4)"
    unfolding import_images_def by (simp add: s split: sum.splits)
  show "calls (trace (snd (import_images env sources w))) =
           calls (trace w) @ staged_calls @ [WriteSnapshotMetadata sp, WriteTargetsConf sp,
             LinkBootloaders sp, UpdateCurrentSymlink (config_storage env) sp,
             UpdateIscsiTargets sp]
           @ (case registrar_result env st4 sp of Inl e \<Rightarrow> []
              | Inr x \<Rightarrow> [CleanupSnapshotsAndCache (config_storage env)])"
    unfolding import_images_def by (simp add: s split: sum.splits)
qed

lemma run_unchanged:
  assumes "sources \<noteq> []"
    and "write_all_keyrings env (keyrings_path env) (map encode_keyring_data sources) = Inr sources2"
    and "download_all_image_descriptions env sources2 = Inr d"
    and "\<not> is_empty d"
    and "active_metadata_record (fs w) = Some (dump_json d)"
  shows "fst (import_images env sources w) =
           (case registrar_result env (snd (meta_contains env (config_storage env) (dump_json d) (fs w)))
                   (current_link env) of Inl e \<Rightarrow> Inl e | Inr x \<Rightarrow> Inr False)"
    and "fs (snd (import_images env sources w)) =
           snd (meta_contains env (config_storage env) (dump_json d) (fs w))"
    and "calls (trace (snd (import_images env sources w))) =
           calls (trace w) @ [WriteAllKeyrings, DownloadAllImageDescriptions,
             UpdateIscsiTargets (current_link env)]"
proof -
  have u: "fst (meta_contains env (config_storage env) (dump_json d) (fs w)) = Inr True"
    using assms(5) by (simp add: meta_contains_result)
  note s = assms(1-4) u Let_def split_beta update_iscsi_targets_fst update_iscsi_targets_fs
    update_iscsi_targets_calls current_link_def
  show "fst (import_images env sources w) =
           (case registrar_result env (snd (meta_contains env (config_storage env) (dump_json d) (fs w)))
                   (current_link env) of Inl e \<Rightarrow> Inl e | Inr x \<Rightarrow> Inr False)"
    unfolding import_images_def by (simp add: s split: sum.splits)
  show "fs (snd (import_images env sources w)) =
           snd (meta_contains env (config_storage env) (dump_json d) (fs w))"
    unfolding import_images_def by (simp add: s split: sum.splits)
  show "calls (trace (snd (import_images env sources w))) =
           calls (trace w) @ [WriteAllKeyrings, DownloadAllImageDescriptions,
             UpdateIscsiTargets (current_link env)]"
    unfolding import_images_def by (simp add: s split: sum.splits)
qed

lemma run_empty_catalog:
  assumes "sources \<noteq> []"
    and "write_all_keyrings env (keyrings_path env) (map encode_keyring_data sources) = Inr sources2"
    and "download_all_image_descriptions env sources2 = Inr d"
    and "is_empty d"
  shows "fst (import_images env sources w) =
           (case registrar_result env (fs w) (current_link env) of
              Inl e \<Rightarrow> Inl e | Inr x \<Rightarrow> Inr False)"
    and "fs (snd (import_images env sources w)) = fs w"
    and "calls (trace (snd (import_images env sources w))) =
           calls (trace w) @ [WriteAllKeyrings, DownloadAllImageDescriptions,
             UpdateIscsiTargets (current_link env)]"
proof -
  note s = assms Let_def split_beta update_iscsi_targets_fst update_iscsi_targets_fs
    update_iscsi_targets_calls current_link_def
  show "fst (import_images env sources w) =
           (case registrar_result env (fs w) (current_link env) of
              Inl e \<Rightarrow> Inl e | Inr x \<Rightarrow> Inr False)"
    unfolding import_images_def by (simp add: s split: sum.splits)
  show "fs (snd (import_images env sources w)) = fs w"
    unfolding import_images_def by (simp add: s split: sum.splits)
  show "calls (trace (snd (import_images env sources w))) =
           calls (trace w) @ [WriteAllKeyrings, DownloadAllImageDescriptions,
             UpdateIscsiTargets (current_link env)]"
    unfolding import_images_def by (simp add: s split: sum.splits)
qed

lemma run_no_sources:
  "import_images env [] w =
     (Inr False,
      w\<lparr>trace := trace w @
          [RackEvent RACK_IMPORT_WARNING
             (Text (''Can'' @ [CHR 0x27] @ ''t import: region did not provide a source.'')),
           MaasLog Warning
             (Text (''Can'' @ [CHR 0x27] @ ''t import: region did not provide a source.''))]\<rparr>)"
  by (simp add: import_images_def Let_def try_send_rack_event_def maaslog_def emit_def)


lemma run_callsI:
  "calls (trace (snd (import_images env sources w))) = calls (trace w) @ cs
   \<Longrightarrow> run_calls env sources w = cs"
  by (simp add: run_calls_def)






lemma registrar_result_eq:
  "registrar_result env st p =
     (case ensure_service env ''tgt'' of
        Some e \<Rightarrow> Inl e
      | None \<Rightarrow>
          if \<not> path_exists env st (os_path_join p [''maas.tgt'']) then Inr ()
          else (case tgt_admin env (os_path_join p [''maas.tgt'']) of
                  None \<Rightarrow> Inr ()
                | Some e \<Rightarrow> if is_ExternalProcessError e then Inr () else Inl e))"
  by (simp add: registrar_result_def update_iscsi_targets_def update_targets_conf_def Let_def
        del: os_path_join.simps split: option.splits)


lemma run_keyrings_raise:
  assumes "sources \<noteq> []"
    and "write_all_keyrings env (keyrings_path env) (map encode_keyring_data sources) = Inl e"
  shows "calls (trace (snd (import_images env sources w))) = calls (trace w) @ [WriteAllKeyrings]"
  unfolding import_images_def by (simp add: assms Let_def)

lemma run_descriptions_raise:
  assumes "sources \<noteq> []"
    and "write_all_keyrings env (keyrings_path env) (map encode_keyring_data sources) = Inr sources2"
    and "download_all_image_descriptions env sources2 = Inl e"
  shows "calls (trace (snd (import_images env sources w))) =
           calls (trace w) @ [WriteAllKeyrings, DownloadAllImageDescriptions]"
  unfolding import_images_def by (simp add: assms Let_def)

lemma run_map_products_raise:
  assumes "sources \<noteq> []"
    and "write_all_keyrings env (keyrings_path env) (map encode_keyring_data sources) = Inr sources2"
    and "download_all_image_descriptions env sources2 = Inr d"
    and "\<not> is_empty d"
    and "active_metadata_record (fs w) \<noteq> Some (dump_json d)"
    and "map_products env d = Inl e"
  shows "calls (trace (snd (import_images env sources w))) =
           calls (trace w) @ [WriteAllKeyrings, DownloadAllImageDescriptions, MapProducts]"
proof -
  have u: "fst (meta_contains env (config_storage env) (dump_json d) (fs w)) = Inr False"
    using assms(5) by (simp add: meta_contains_result)
  show ?thesis
    unfolding import_images_def by (simp add: assms(1-4,6) u Let_def split_beta)
qed

lemma download_outcome_Some:
  assumes "sources \<noteq> []"
    and "write_all_keyrings env (keyrings_path env) (map encode_keyring_data sources) = Inr sources2"
    and "download_all_image_descriptions env sources2 = Inr d"
    and "\<not> is_empty d"
    and "active_metadata_record (fs w) \<noteq> Some (dump_json d)"
    and "map_products env d = Inr pm"
  shows "\<exists>r st1. download_outcome env sources w = Some (r, st1, dump_json d)"
proof -
  have u: "fst (meta_contains env (config_storage env) (dump_json d) (fs w)) = Inr False"
    using assms(5) by (simp add: meta_contains_result)
  show ?thesis
    unfolding download_outcome_def by (simp add: assms(1-4,6) u Let_def split_beta)
qed




lemma staged_at_most_one:
  assumes out: "download_outcome env sources w = Some (r, st1, c)"
  shows "\<exists>cs. calls (trace (snd (import_images env sources w))) = calls (trace w) @ cs
              \<and> length (registrar_calls cs) \<le> 1"
proof (cases r)
  case (Inl e)
  show ?thesis
  proof (cases "is_Exception e")
    case True
    from staged_failure(3) [OF out [unfolded Inl] True] show ?thesis
      by (auto simp: staged_calls_def split: sum.splits)
  next
    case False
    from staged_nonexception(3) [OF out [unfolded Inl] False] show ?thesis
      by (auto simp: staged_calls_def)
  qed
next
  case (Inr sp)
  note out' = out [unfolded Inr]
  obtain r2 st2 where m: "metadata_write env sp c st1 = (r2, st2)" by force
  show ?thesis
  proof (cases r2)
    case (Inl e)
    from staged_meta_fail(3) [OF out' m [unfolded Inl]] show ?thesis
      by (auto simp: staged_calls_def)
  next
    case u: (Inr u)
    obtain r3 st3 where t: "targets_write env sp st2 = (r3, st3)" by force
    show ?thesis
    proof (cases r3)
      case (Inl e)
      from staged_tgt_fail(3) [OF out' m [unfolded u] t [unfolded Inl]] show ?thesis
        by (auto simp: staged_calls_def)
    next
      case u': (Inr u')
      obtain r4 st4 where p: "pointer_swap env sp (bootloaders_linked env sp st3) = (r4, st4)"
        by force
      show ?thesis
      proof (cases r4)
        case (Inl e)
        from staged_swap_fail(3) [OF out' m [unfolded u] t [unfolded u'] p [unfolded Inl]]
        show ?thesis by (auto simp: staged_calls_def)
      next
        case (Inr u'')
        from staged_committed(3) [OF out' m [unfolded u] t [unfolded u'] p [unfolded Inr]]
        show ?thesis by (auto simp: staged_calls_def split: sum.splits)
      qed
    qed
  qed
qed

lemma at_most_one_registrar_call:
  "\<exists>cs. calls (trace (snd (import_images env sources w))) = calls (trace w) @ cs
        \<and> length (registrar_calls cs) \<le> 1"
proof (cases "sources = []")
  case True
  then show ?thesis by (simp add: run_no_sources)
next
  case ne: False
  show ?thesis
  proof (cases "write_all_keyrings env (keyrings_path env) (map encode_keyring_data sources)")
    case (Inl e)
    from run_keyrings_raise [OF ne Inl] show ?thesis by simp
  next
    case k: (Inr sources2)
    show ?thesis
    proof (cases "download_all_image_descriptions env sources2")
      case (Inl e)
      from run_descriptions_raise [OF ne k Inl] show ?thesis by simp
    next
      case d: (Inr d)
      show ?thesis
      proof (cases "is_empty d")
        case True
        from run_empty_catalog(3) [OF ne k d True] show ?thesis by simp
      next
        case nonempty: False
        show ?thesis
        proof (cases "active_metadata_record (fs w) = Some (dump_json d)")
          case True
          from run_unchanged(3) [OF ne k d nonempty True] show ?thesis by simp
        next
          case changed: False
          show ?thesis
          proof (cases "map_products env d")
            case (Inl e)
            from run_map_products_raise [OF ne k d nonempty changed Inl] show ?thesis by simp
          next
            case (Inr pm)
            from download_outcome_Some [OF ne k d nonempty changed Inr]
            obtain r st1 where "download_outcome env sources w = Some (r, st1, dump_json d)"
              by blast
            then show ?thesis by (rule staged_at_most_one)
          qed
        qed
      qed
    qed
  qed
qed

lemma registrar_result_warning:
  assumes "ensure_service env ''tgt'' = None"
    and "tgt_admin env (os_path_join p [''maas.tgt'']) = Some e"
    and "is_ExternalProcessError e"
  shows "registrar_result env st p = Inr ()"
  using assms by (simp add: registrar_result_eq del: os_path_join.simps)

lemma pointer_swap_current:
  "pointer_swap env sp st = (Inr u, st') \<Longrightarrow> current st' = Some sp"
  by (auto dest: pointer_swap_cases(1))

lemma reap_cache_kept:
  assumes "cache (reap st) k = Some refs"
  obtains refs0 t where "cache st k = Some refs0" "current st = Some t"
    "t \<in> refs0" "t \<in> snapshots st"
  using assms
  by (auto simp: reap_def Let_def split: option.splits if_splits)

lemma ex_disk_ok_outcome:
  assumes "download_all_boot_resources env = ex_download"
    and "config_storage env = ''/s''"
    and "keyrings_path env = kp"
    and "write_all_keyrings env = (\<lambda>p srcs. Inr srcs)"
    and "download_all_image_descriptions env = (\<lambda>srcs. Inr \<lparr>is_empty = False, dump_json = ''[2]''\<rparr>)"
    and "map_products env = (\<lambda>d. Inr [])"
  shows "\<exists>st1. download_outcome env [ex_source] ex_world = Some (Inr ''/s/snapshot-2'', st1, ''[2]'')
            \<and> current st1 = Some ''/s/snapshot-1''
            \<and> snapshots st1 = {''/s/snapshot-2'', ''/s/snapshot-1''}"
  by (simp add: assms download_outcome_def meta_contains_def isfile_def resolve_def utime_def
        read_text_file_def current_link_def Let_def ex_download_def ex_staged_def ex_world_def
        ex_fs_def)



lemma link_bootloader_failure_continues:
  assumes "link_bootloader env m d (fs w0) = (Some x, st')"
  shows "link_bootloaders_loop env d (m # ms) w0 =
           link_bootloaders_loop env d ms
             (w0\<lparr>fs := st',
                 trace := trace w0 @
                   [LinkBootloader m d,
                    RackEvent RACK_IMPORT_ERROR (Pair ''Unable to link the %s bootloader.'' m),
                    MaasLog Error (Pair ''Unable to link the %s bootloader.'' m)]\<rparr>)"
  using assms
  by (simp add: Let_def emit_def try_send_rack_event_def maaslog_def)



lemma run_calls_at_most_one_registrar:
  "length (registrar_calls (run_calls env sources w)) \<le> 1"
proof -
  obtain cs where "calls (trace (snd (import_images env sources w))) = calls (trace w) @ cs"
    and "length (registrar_calls cs) \<le> 1"
    using at_most_one_registrar_call by blast
  then show ?thesis
    by (simp add: run_calls_def)
qed

subsection \<open>The claims\<close>

text \<open>
  C1. \<^verbatim>\<open>meta_contains\<close> never raises, and it answers "unchanged" (\<open>True\<close>) exactly when
  a Current Pointer exists and the Metadata Record stored in the active Snapshot is
  equal, as a whole text, to the candidate. So without a Current Pointer (or without
  a stored record) the answer is "changed" for every candidate, and a candidate that
  differs from the stored record is never reported unchanged.
\<close>

theorem meta_contains_iff_stored_equal:
  "fst (meta_contains env (config_storage env) content st) =
     Inr (active_metadata_record st = Some content)"
  by (rule meta_contains_result)

subsection \<open>The target descriptor\<close>

lemma os_path_join_append:
  "os_path_join (os_path_join sp xs) ys = os_path_join sp (xs @ ys)"
  by (induction xs arbitrary: sp) auto

lemma sorted_entries_set: "set (sorted_entries items) = image_key ` set items"
  by (simp add: sorted_entries_def)

lemma sorted_entries_strict: "sorted_wrt (<) (sorted_entries items)"
  by (simp add: sorted_entries_def)

lemma sorted_entries_cong:
  "set (map image_key xs) = set (map image_key ys) \<Longrightarrow> sorted_entries xs = sorted_entries ys"
  by (simp add: sorted_entries_def)

lemma sorted_entries_eval: "sorted_entries items = sort (remdups (map image_key items))"
  unfolding sorted_entries_def by (rule sorted_list_of_set_sort_remdups)

lemma tgt_entry_text:
  "tgt_entry osys arch subarch rel lbl img =
     ''<target iqn.2004-05.com.ubuntu:maas:ephemeral-'' @ osys @ ''-'' @ arch @ ''-'' @ subarch
       @ ''-'' @ rel @ ''-'' @ lbl
       @ ''>\<newline>    readonly 1\<newline>    allow-in-use yes\<newline>    backing-store ''
       @ [CHR 0x22] @ img @ [CHR 0x22] @ ''\<newline>    driver iscsi\<newline></target>\<newline>''"
  by (simp add: tgt_entry_def)

lemma tuple_entries_paths:
  "tuple_entries isf sp (osys, arch, subarch, rel, lbl) =
     (if isf (os_path_join sp [osys, arch, subarch, rel, lbl, ''root-image''])
      then [tgt_entry osys arch subarch rel lbl
              (os_path_join sp [osys, arch, subarch, rel, lbl, ''root-image''])] else [])
   @ (if isf (os_path_join sp [osys, arch, subarch, rel, lbl, ''squashfs''])
      then [tgt_entry osys arch subarch rel lbl
              (os_path_join sp [osys, arch, subarch, rel, lbl, ''squashfs''])] else [])"
  unfolding tuple_entries.simps Let_def os_path_join_append by simp

text \<open>
  C5, as the claim states it, fails. "One entry per distinct tuple" is not what the code
  writes: for the one tuple of \<open>ex_image\<close>, a Snapshot in which both \<^verbatim>\<open>root-image\<close> and
  \<^verbatim>\<open>squashfs\<close> are regular files gets two entries, and a Snapshot in which neither is
  gets an empty descriptor.
\<close>

theorem tgt_entries_not_one_per_tuple:
  "card (image_key ` set [ex_image]) = 1
   \<and> length (tgt_entries (\<lambda>p. [ex_image]) (\<lambda>p. True) ''/s/snapshot-2'') = 2
   \<and> compose_targets_conf (\<lambda>p. [ex_image]) (\<lambda>p. False) ''/s/snapshot-2'' = []"
  by (simp add: tgt_entries_def compose_targets_conf_def sorted_entries_eval image_key_def
        ex_image_def)

text \<open>
  C5, amended. The descriptor is the concatenation of the entries of each distinct
  (osystem, arch, subarch, release, label) tuple of the listing, every tuple taken once.
  A tuple has one entry for each of the files \<^verbatim>\<open>root-image\<close> and \<^verbatim>\<open>squashfs\<close> that is a
  regular file in its directory, in that order: none, one or two. An entry names the tuple
  in its target name and carries the flags \<^verbatim>\<open>readonly 1\<close> and \<^verbatim>\<open>allow-in-use yes\<close> and, as
  backing store, the path \<^verbatim>\<open>os.path.join(snapshot_path, osystem, arch, subarch, release,
  label, file)\<close>.
\<close>

theorem tgt_entries_per_tuple_and_file:
  "compose_targets_conf lbi isf sp =
     concat (concat (map (tuple_entries isf sp) (sorted_entries (lbi sp))))
   \<and> set (sorted_entries (lbi sp)) = image_key ` set (lbi sp)
   \<and> distinct (sorted_entries (lbi sp))
   \<and> tuple_entries isf sp (osys, arch, subarch, rel, lbl) =
       (if isf (os_path_join sp [osys, arch, subarch, rel, lbl, ''root-image''])
        then [tgt_entry osys arch subarch rel lbl
                (os_path_join sp [osys, arch, subarch, rel, lbl, ''root-image''])] else [])
     @ (if isf (os_path_join sp [osys, arch, subarch, rel, lbl, ''squashfs''])
        then [tgt_entry osys arch subarch rel lbl
                (os_path_join sp [osys, arch, subarch, rel, lbl, ''squashfs''])] else [])
   \<and> tgt_entry osys arch subarch rel lbl img =
       ''<target iqn.2004-05.com.ubuntu:maas:ephemeral-'' @ osys @ ''-'' @ arch @ ''-''
         @ subarch @ ''-'' @ rel @ ''-'' @ lbl
         @ ''>\<newline>    readonly 1\<newline>    allow-in-use yes\<newline>    backing-store ''
         @ [CHR 0x22] @ img @ [CHR 0x22] @ ''\<newline>    driver iscsi\<newline></target>\<newline>''"
proof -
  have "distinct (sorted_entries (lbi sp))"
    by (simp add: sorted_entries_def)
  then show ?thesis
    using tuple_entries_paths [of isf sp osys arch subarch rel lbl]
      tgt_entry_text [of osys arch subarch rel lbl img]
    by (simp only: compose_targets_conf_def tgt_entries_def sorted_entries_set simp_thms)
qed

text \<open>
  C7. The descriptor depends on the listing only through the set of its tuples: two
  listings of the same tuples, in whatever order and with whatever repetitions, give the
  same text for the same files. The text is the concatenation of the tuples' entries in
  strictly ascending order of the tuple.
\<close>

theorem compose_targets_conf_deterministic:
  assumes "set (map image_key (lbi sp)) = set (map image_key (lbi' sp))"
  shows "compose_targets_conf lbi isf sp = compose_targets_conf lbi' isf sp
         \<and> sorted_wrt (<) (sorted_entries (lbi sp))
         \<and> set (sorted_entries (lbi sp)) = set (map image_key (lbi sp))
         \<and> compose_targets_conf lbi isf sp =
             concat (concat (map (tuple_entries isf sp) (sorted_entries (lbi sp))))"
proof -
  have eq: "sorted_entries (lbi sp) = sorted_entries (lbi' sp)"
    using assms by (rule sorted_entries_cong)
  have same: "compose_targets_conf lbi isf sp = compose_targets_conf lbi' isf sp"
    by (simp only: compose_targets_conf_def tgt_entries_def eq)
  have keys: "set (sorted_entries (lbi sp)) = set (map image_key (lbi sp))"
    by (simp add: sorted_entries_set)
  have joined: "compose_targets_conf lbi isf sp =
      concat (concat (map (tuple_entries isf sp) (sorted_entries (lbi sp))))"
    by (simp only: compose_targets_conf_def tgt_entries_def)
  from same sorted_entries_strict [of "lbi sp"] keys joined show ?thesis
    by (intro conjI)
qed

theorem compose_targets_conf_deterministic_witness:
  "compose_targets_conf (\<lambda>p. [ex_image, ex_image_bionic, ex_image]) (\<lambda>p. True) ''/s/snapshot-2''
     = compose_targets_conf (\<lambda>p. [ex_image_bionic, ex_image]) (\<lambda>p. True) ''/s/snapshot-2''
   \<and> sorted_entries [ex_image, ex_image_bionic, ex_image]
     = [(''ubuntu'', ''amd64'', ''generic'', ''bionic'', ''release''),
        (''ubuntu'', ''amd64'', ''generic'', ''xenial'', ''release'')]"
proof -
  have same: "set (map image_key [ex_image, ex_image_bionic, ex_image])
                = set (map image_key [ex_image_bionic, ex_image])"
    by auto
  have "sorted_entries [ex_image, ex_image_bionic, ex_image]
          = [(''ubuntu'', ''amd64'', ''generic'', ''bionic'', ''release''),
             (''ubuntu'', ''amd64'', ''generic'', ''xenial'', ''release'')]"
    by (simp add: sorted_entries_eval image_key_def ex_image_def ex_image_bionic_def)
  then show ?thesis
    using compose_targets_conf_deterministic
      [of "\<lambda>p. [ex_image, ex_image_bionic, ex_image]" "''/s/snapshot-2''"
          "\<lambda>p. [ex_image_bionic, ex_image]" "\<lambda>p. True", OF same]
    by simp
qed



text \<open>
  C10. With an empty list of sources \<^verbatim>\<open>import_images\<close> returns \<open>False\<close> at once: it sends one
  warning event and logs one warning, calls no stage of the pipeline (no catalog fetch, no
  Target Registrar) and leaves the StorageRoot as it was. A run with sources whose catalog
  is empty, by contrast, does invoke the Target Registrar, for the \<^verbatim>\<open>current\<close> path.
\<close>

theorem no_sources_returns_false:
  "import_images env [] w =
     (Inr False,
      w\<lparr>trace := trace w @
          [RackEvent RACK_IMPORT_WARNING
             (Text (''Can'' @ [CHR 0x27] @ ''t import: region did not provide a source.'')),
           MaasLog Warning
             (Text (''Can'' @ [CHR 0x27] @ ''t import: region did not provide a source.''))]\<rparr>)
   \<and> run_calls env [] w = []
   \<and> (sources \<noteq> []
        \<and> write_all_keyrings env (keyrings_path env) (map encode_keyring_data sources) = Inr sources2
        \<and> download_all_image_descriptions env sources2 = Inr d
        \<and> is_empty d
      \<longrightarrow> run_calls env sources w =
            [WriteAllKeyrings, DownloadAllImageDescriptions, UpdateIscsiTargets (current_link env)])"
proof -
  have "run_calls env [] w = []"
    by (simp add: run_calls_def run_no_sources)
  moreover have "run_calls env sources w =
            [WriteAllKeyrings, DownloadAllImageDescriptions, UpdateIscsiTargets (current_link env)]"
    if "sources \<noteq> []"
      "write_all_keyrings env (keyrings_path env) (map encode_keyring_data sources) = Inr sources2"
      "download_all_image_descriptions env sources2 = Inr d" "is_empty d"
    using run_empty_catalog(3) [OF that] by (rule run_callsI)
  ultimately show ?thesis
    using run_no_sources [of env w] by blast
qed

theorem no_sources_returns_false_witness:
  "fst (import_images ex_env_empty [] ex_world) = Inr False
   \<and> run_calls ex_env_empty [] ex_world = []
   \<and> run_calls ex_env_empty [ex_source] ex_world =
       [WriteAllKeyrings, DownloadAllImageDescriptions, UpdateIscsiTargets ''/s/current'']"
proof -
  have k: "write_all_keyrings ex_env_empty (keyrings_path ex_env_empty)
             (map encode_keyring_data [ex_source]) = Inr (map encode_keyring_data [ex_source])"
    by (simp add: ex_env_empty_def ex_env_def)
  have d: "download_all_image_descriptions ex_env_empty (map encode_keyring_data [ex_source])
             = Inr \<lparr>is_empty = True, dump_json = ''[]''\<rparr>"
    by (simp add: ex_env_empty_def ex_env_def)
  have l: "current_link ex_env_empty = ''/s/current''"
    by (simp add: current_link_def ex_env_empty_def ex_env_def)
  from no_sources_returns_false
         [of ex_env_empty ex_world "[ex_source]" "map encode_keyring_data [ex_source]"
             "\<lparr>is_empty = True, dump_json = ''[]''\<rparr>"] k d l
  show ?thesis
    by simp
qed



text \<open>
  C8, as the claim states it, fails. The wait for the \<^verbatim>\<open>tgt\<close> service stands before the
  \<^verbatim>\<open>try\<close> of \<^verbatim>\<open>update_targets_conf\<close>: when the daemon cannot be brought up, what the wait
  raises leaves the Target Registrar, and a run that has already swapped the Current
  Pointer raises it to its caller instead of returning \<open>True\<close>.
\<close>

theorem tgt_service_wait_failure_is_raised:
  "fst (update_iscsi_targets ex_env_tgt_down ''/s/snapshot-1'' ex_world)
     = Inl (OtherException ''tgt did not start'')
   \<and> fst (import_images ex_env_tgt_down [ex_source] ex_world)
     = Inl (OtherException ''tgt did not start'')
   \<and> current (fs (snd (import_images ex_env_tgt_down [ex_source] ex_world)))
     = Some ''/s/snapshot-2''"
proof -
  have reg: "registrar_result ex_env_tgt_down st p = Inl (OtherException ''tgt did not start'')"
    for st p
    by (simp add: registrar_result_eq ex_env_tgt_down_def ex_env_def del: os_path_join.simps)
  obtain st1 where out: "download_outcome ex_env_tgt_down [ex_source] ex_world
                           = Some (Inr ''/s/snapshot-2'', st1, ''[2]'')"
    using ex_disk_ok_outcome [of ex_env_tgt_down "''/tmp/keyrings''"]
    by (auto simp: ex_env_tgt_down_def ex_env_def)
  obtain st2 where m: "metadata_write ex_env_tgt_down ''/s/snapshot-2'' ''[2]'' st1 = (Inr (), st2)"
    by (simp add: metadata_write_def write_snapshot_metadata_def encode_ascii_def
          atomic_write_def resolve_def current_link_def Let_def emit_def
          ex_env_tgt_down_def ex_env_def)
  obtain st3 where t: "targets_write ex_env_tgt_down ''/s/snapshot-2'' st2 = (Inr (), st3)"
    by (simp add: targets_write_def write_targets_conf_def atomic_write_def resolve_def
          current_link_def Let_def emit_def ex_env_tgt_down_def ex_env_def)
  obtain st4 where p: "pointer_swap ex_env_tgt_down ''/s/snapshot-2''
                         (bootloaders_linked ex_env_tgt_down ''/s/snapshot-2'' st3) = (Inr (), st4)"
    by (simp add: pointer_swap_def update_current_symlink_def atomic_symlink_def Let_def
          emit_def ex_env_tgt_down_def ex_env_def)
  note run = staged_committed [OF out m t p]
  show ?thesis
    by (simp add: run(1,2) reg update_iscsi_targets_fst pointer_swap_current [OF p])
qed

text \<open>
  C8, amended. When \<^verbatim>\<open>tgt-admin\<close> fails (the daemon is unreachable for it or rejects the
  configuration; \<^verbatim>\<open>call_and_check\<close> raises \<^verbatim>\<open>ExternalProcessError\<close>) after the wait for the
  \<^verbatim>\<open>tgt\<close> service has returned, the Target Registrar sends one warning event, logs one
  warning and returns without raising; it never changes the StorageRoot, so the Current
  Pointer is as it was. A commit whose Target Registrar step fails so still returns
  \<open>True\<close>, with the Current Pointer at the new Snapshot and the reaper called after the
  Target Registrar. (What the wait itself raises is not caught.)
\<close>

theorem tgt_reload_failure_is_a_warning:
  assumes "ensure_service env ''tgt'' = None"
    and "tgt_admin env (os_path_join snapshot [''maas.tgt'']) = Some e"
    and "is_ExternalProcessError e"
  shows "(path_exists env (fs w) (os_path_join snapshot [''maas.tgt'']) \<longrightarrow>
            update_targets_conf env snapshot w =
              (Inr (), w\<lparr>trace := trace w @
                 [EnsureService ''tgt'',
                  TgtAdmin (os_path_join snapshot [''maas.tgt'']),
                  RackEvent RACK_IMPORT_WARNING
                    (Text (''Unable to update TGT config: '' @ exc_str e)),
                  MaasLog Warning (Text (''Unable to update TGT config: '' @ exc_str e))]\<rparr>))
       \<and> fst (update_iscsi_targets env snapshot w) = Inr ()
       \<and> fs (snd (update_iscsi_targets env snapshot w)) = fs w
       \<and> (download_outcome env sources w = Some (Inr snapshot, st1, c)
            \<and> metadata_write env snapshot c st1 = (Inr (), st2)
            \<and> targets_write env snapshot st2 = (Inr (), st3)
            \<and> pointer_swap env snapshot (bootloaders_linked env snapshot st3) = (Inr (), st4)
          \<longrightarrow> fst (import_images env sources w) = Inr True
              \<and> current (fs (snd (import_images env sources w))) = Some snapshot
              \<and> run_calls env sources w =
                  staged_calls @
                  [WriteSnapshotMetadata snapshot, WriteTargetsConf snapshot,
                   LinkBootloaders snapshot,
                   UpdateCurrentSymlink (config_storage env) snapshot,
                   UpdateIscsiTargets snapshot,
                   CleanupSnapshotsAndCache (config_storage env)])"
proof -
  have warn: "update_targets_conf env snapshot w =
              (Inr (), w\<lparr>trace := trace w @
                 [EnsureService ''tgt'',
                  TgtAdmin (os_path_join snapshot [''maas.tgt'']),
                  RackEvent RACK_IMPORT_WARNING
                    (Text (''Unable to update TGT config: '' @ exc_str e)),
                  MaasLog Warning (Text (''Unable to update TGT config: '' @ exc_str e))]\<rparr>)"
    if "path_exists env (fs w) (os_path_join snapshot [''maas.tgt''])"
    using that assms
    by (simp add: update_targets_conf_def Let_def emit_def maaslog_def try_send_rack_event_def
          del: os_path_join.simps)
  have ok: "registrar_result env st snapshot = Inr ()" for st
    using assms by (rule registrar_result_warning)
  have ret: "fst (update_iscsi_targets env snapshot w) = Inr ()"
    by (simp add: update_iscsi_targets_fst ok)
  have commit:
    "fst (import_images env sources w) = Inr True
     \<and> current (fs (snd (import_images env sources w))) = Some snapshot
     \<and> run_calls env sources w =
          staged_calls @
          [WriteSnapshotMetadata snapshot, WriteTargetsConf snapshot,
           LinkBootloaders snapshot,
           UpdateCurrentSymlink (config_storage env) snapshot,
           UpdateIscsiTargets snapshot,
           CleanupSnapshotsAndCache (config_storage env)]"
    if out: "download_outcome env sources w = Some (Inr snapshot, st1, c)"
      and m: "metadata_write env snapshot c st1 = (Inr (), st2)"
      and t: "targets_write env snapshot st2 = (Inr (), st3)"
      and p: "pointer_swap env snapshot (bootloaders_linked env snapshot st3) = (Inr (), st4)"
  proof -
    note run = staged_committed [OF out m t p]
    have "run_calls env sources w =
          staged_calls @
          [WriteSnapshotMetadata snapshot, WriteTargetsConf snapshot,
           LinkBootloaders snapshot,
           UpdateCurrentSymlink (config_storage env) snapshot,
           UpdateIscsiTargets snapshot,
           CleanupSnapshotsAndCache (config_storage env)]"
      by (rule run_callsI) (simp add: run(3) ok)
    then show ?thesis
      by (simp add: run(1,2) ok reap_current pointer_swap_current [OF p])
  qed
  from warn ret commit show ?thesis
    by (simp add: update_iscsi_targets_fs)
qed

theorem tgt_reload_failure_is_a_warning_witness:
  "fst (import_images ex_env_tgt_rejects [ex_source] ex_world) = Inr True
   \<and> current (fs (snd (import_images ex_env_tgt_rejects [ex_source] ex_world)))
       = Some ''/s/snapshot-2''
   \<and> fst (update_iscsi_targets ex_env_tgt_rejects ''/s/snapshot-2'' ex_world) = Inr ()
   \<and> update_targets_conf ex_env_tgt_rejects ''/s/snapshot-1'' ex_world =
       (Inr (), ex_world\<lparr>trace :=
          [EnsureService ''tgt'', TgtAdmin ''/s/snapshot-1/maas.tgt'',
           RackEvent RACK_IMPORT_WARNING
             (Text ''Unable to update TGT config: tgt-admin exited with 22''),
           MaasLog Warning (Text ''Unable to update TGT config: tgt-admin exited with 22'')]\<rparr>)"
proof -
  let ?e = "ExternalProcessError ''tgt-admin exited with 22''"
  have ens: "ensure_service ex_env_tgt_rejects ''tgt'' = None"
    by (simp add: ex_env_tgt_rejects_def ex_env_def)
  have adm: "tgt_admin ex_env_tgt_rejects (os_path_join sp [''maas.tgt'']) = Some ?e" for sp
    by (simp add: ex_env_tgt_rejects_def ex_env_def)
  have epe: "is_ExternalProcessError ?e"
    by simp
  obtain st1 where out: "download_outcome ex_env_tgt_rejects [ex_source] ex_world
                           = Some (Inr ''/s/snapshot-2'', st1, ''[2]'')"
    by (simp add: download_outcome_def meta_contains_def isfile_def resolve_def utime_def
          read_text_file_def current_link_def Let_def ex_env_tgt_rejects_def ex_env_def
          ex_download_def ex_world_def ex_fs_def)
  obtain st2 where m: "metadata_write ex_env_tgt_rejects ''/s/snapshot-2'' ''[2]'' st1 = (Inr (), st2)"
    by (simp add: metadata_write_def write_snapshot_metadata_def encode_ascii_def
          atomic_write_def resolve_def current_link_def Let_def emit_def
          ex_env_tgt_rejects_def ex_env_def)
  obtain st3 where t: "targets_write ex_env_tgt_rejects ''/s/snapshot-2'' st2 = (Inr (), st3)"
    by (simp add: targets_write_def write_targets_conf_def atomic_write_def resolve_def
          current_link_def Let_def emit_def ex_env_tgt_rejects_def ex_env_def)
  obtain st4 where p: "pointer_swap ex_env_tgt_rejects ''/s/snapshot-2''
                         (bootloaders_linked ex_env_tgt_rejects ''/s/snapshot-2'' st3) = (Inr (), st4)"
    by (simp add: pointer_swap_def update_current_symlink_def atomic_symlink_def Let_def
          emit_def ex_env_tgt_rejects_def ex_env_def)
  have ex1: "path_exists ex_env_tgt_rejects (fs ex_world) (os_path_join ''/s/snapshot-1'' [''maas.tgt''])"
    by (simp add: path_exists_def resolve_def current_link_def ex_env_tgt_rejects_def
          ex_env_def ex_world_def ex_fs_def)
  have tr: "trace ex_world = []"
    by (simp add: ex_world_def)
  from tgt_reload_failure_is_a_warning
         [OF ens adm [of "''/s/snapshot-2''"] epe, of ex_world "[ex_source]" st1 "''[2]''" st2 st3 st4]
       out m t p
  have a: "fst (import_images ex_env_tgt_rejects [ex_source] ex_world) = Inr True
     \<and> current (fs (snd (import_images ex_env_tgt_rejects [ex_source] ex_world)))
         = Some ''/s/snapshot-2''
     \<and> fst (update_iscsi_targets ex_env_tgt_rejects ''/s/snapshot-2'' ex_world) = Inr ()"
    by simp
  from tgt_reload_failure_is_a_warning
         [OF ens adm [of "''/s/snapshot-1''"] epe, of ex_world] ex1
  have b: "update_targets_conf ex_env_tgt_rejects ''/s/snapshot-1'' ex_world =
       (Inr (), ex_world\<lparr>trace :=
          [EnsureService ''tgt'', TgtAdmin ''/s/snapshot-1/maas.tgt'',
           RackEvent RACK_IMPORT_WARNING
             (Text ''Unable to update TGT config: tgt-admin exited with 22''),
           MaasLog Warning (Text ''Unable to update TGT config: tgt-admin exited with 22'')]\<rparr>)"
    by (simp add: tr)
  from a b show ?thesis by simp
qed

text \<open>
  C2, as the claim states it, fails. With a stale Snapshot \<^verbatim>\<open>/s/snapshot-0\<close> beside the
  active one before the run, a run whose download raises ends with the active Snapshot
  alone: the reaper the handler calls deletes every Snapshot but the active one, the
  stale one with the partial one, so the set of Snapshots is not the one before the run.
\<close>

theorem download_failure_reaps_stale_snapshots:
  "fst (import_images ex_env_download_fails [ex_source] ex_world_stale)
     = Inl (OtherException ''connection reset'')
   \<and> snapshots (fs ex_world_stale) = {''/s/snapshot-0'', ''/s/snapshot-1''}
   \<and> snapshots (fs (snd (import_images ex_env_download_fails [ex_source] ex_world_stale)))
       = {''/s/snapshot-1''}
   \<and> snapshots (fs (snd (import_images ex_env_download_fails [ex_source] ex_world_stale)))
       \<noteq> snapshots (fs ex_world_stale)"
proof -
  obtain st1 where
    out: "download_outcome ex_env_download_fails [ex_source] ex_world_stale
            = Some (Inl (OtherException ''connection reset''), st1, ''[2]'')"
    and cur: "current st1 = Some ''/s/snapshot-1''"
    and sn: "snapshots st1 = {''/s/snapshot-2'', ''/s/snapshot-0'', ''/s/snapshot-1''}"
    and tgt: "files st1 ''/s/snapshot-1/maas.tgt'' \<noteq> None"
    by (simp add: download_outcome_def meta_contains_def isfile_def resolve_def utime_def
          read_text_file_def current_link_def Let_def ex_env_download_fails_def ex_env_def
          ex_download_fails_def ex_staged_def ex_world_stale_def ex_fs_stale_def ex_fs_def)
  have reg: "registrar_result ex_env_download_fails st1 (current_link ex_env_download_fails)
               = Inr ()"
    by (simp add: registrar_result_eq current_link_def ex_env_download_fails_def ex_env_def)
  have before: "snapshots (fs ex_world_stale) = {''/s/snapshot-0'', ''/s/snapshot-1''}"
    by (simp add: ex_world_stale_def ex_fs_stale_def)
  have after: "snapshots (fs (snd (import_images ex_env_download_fails [ex_source] ex_world_stale)))
                 = {''/s/snapshot-1''}"
    by (simp add: staged_failure(2) [OF out] reg reap_snapshots cur sn)
  have "fst (import_images ex_env_download_fails [ex_source] ex_world_stale)
          = Inl (OtherException ''connection reset'')"
    by (simp add: staged_failure(1) [OF out] reg)
  with before after show ?thesis
    by auto
qed

text \<open>
  C2, amended. If the downloader raises an \<^verbatim>\<open>Exception\<close> while populating the staging
  directory, having left the Current Pointer and the Snapshots it found in place, put its
  staging directory elsewhere than where the Current Pointer points, and linked its new
  Cache entries to nothing older, and if the Target Registrar returns, then after the run:
  the Current Pointer has the value it had; no Snapshot is there that was not there
  before, and of those that were, the active one alone remains (the reaper removes stale
  Snapshots with the partial one); every Cache entry was there before the run; the Target
  Registrar was invoked once, for the \<^verbatim>\<open>current\<close> path, before the reaper; and the
  downloader's exception is raised to the caller.
\<close>

theorem download_failure_rolls_back:
  assumes out: "download_outcome env sources w = Some (Inl e, st1, c)"
    and exc: "is_Exception e"
    and reg: "registrar_result env st1 (current_link env) = Inr ()"
    and cur: "current st1 = current (fs w)"
    and old: "snapshots (fs w) \<subseteq> snapshots st1"
    and new: "\<forall>d\<in>snapshots st1 - snapshots (fs w). current (fs w) \<noteq> Some d"
    and cch: "\<forall>k refs. cache st1 k = Some refs \<and> cache (fs w) k = None
                \<longrightarrow> refs \<inter> snapshots (fs w) = {}"
  shows "fst (import_images env sources w) = Inl e
       \<and> current (fs (snd (import_images env sources w))) = current (fs w)
       \<and> snapshots (fs (snd (import_images env sources w)))
           = snapshots (fs w) \<inter> (case current (fs w) of None \<Rightarrow> {} | Some t \<Rightarrow> {t})
       \<and> dom (cache (fs (snd (import_images env sources w)))) \<subseteq> dom (cache (fs w))
       \<and> run_calls env sources w =
           staged_calls @ [UpdateIscsiTargets (current_link env),
                           CleanupSnapshotsAndCache (config_storage env)]"
proof -
  note run = staged_failure [OF out exc]
  have fs': "fs (snd (import_images env sources w)) = reap st1"
    by (simp add: run(2) reg)
  have raised: "fst (import_images env sources w) = Inl e"
    by (simp add: run(1) reg)
  have pointer: "current (reap st1) = current (fs w)"
    by (simp add: reap_current cur)
  have snaps: "snapshots (reap st1)
                 = snapshots (fs w) \<inter> (case current (fs w) of None \<Rightarrow> {} | Some t \<Rightarrow> {t})"
    using old new by (auto simp: reap_snapshots cur split: option.splits)
  have entries: "dom (cache (reap st1)) \<subseteq> dom (cache (fs w))"
  proof
    fix k assume "k \<in> dom (cache (reap st1))"
    then obtain refs where "cache (reap st1) k = Some refs" by blast
    then obtain refs0 t where k: "cache st1 k = Some refs0" "current st1 = Some t"
      "t \<in> refs0" "t \<in> snapshots st1"
      by (rule reap_cache_kept)
    have "t \<in> snapshots (fs w)"
      using new k(2,4) cur by auto
    with k(1,3) cch show "k \<in> dom (cache (fs w))"
      by (cases "cache (fs w) k") auto
  qed
  have "run_calls env sources w =
           staged_calls @ [UpdateIscsiTargets (current_link env),
                           CleanupSnapshotsAndCache (config_storage env)]"
    by (rule run_callsI) (simp add: run(3) reg)
  with raised pointer snaps entries show ?thesis
    by (simp only: fs' simp_thms)
qed

theorem download_failure_rolls_back_witness:
  "fst (import_images ex_env_download_fails [ex_source] ex_world)
     = Inl (OtherException ''connection reset'')
   \<and> current (fs (snd (import_images ex_env_download_fails [ex_source] ex_world)))
       = Some ''/s/snapshot-1''
   \<and> snapshots (fs (snd (import_images ex_env_download_fails [ex_source] ex_world)))
       = {''/s/snapshot-1''}
   \<and> dom (cache (fs (snd (import_images ex_env_download_fails [ex_source] ex_world))))
       \<subseteq> {''c1''}
   \<and> run_calls ex_env_download_fails [ex_source] ex_world =
       [WriteAllKeyrings, DownloadAllImageDescriptions, MapProducts, DownloadAllBootResources,
        UpdateIscsiTargets ''/s/current'', CleanupSnapshotsAndCache ''/s'']"
proof -
  obtain st1 where
    out: "download_outcome ex_env_download_fails [ex_source] ex_world
            = Some (Inl (OtherException ''connection reset''), st1, ''[2]'')"
    and cur: "current st1 = Some ''/s/snapshot-1''"
    and sn: "snapshots st1 = {''/s/snapshot-2'', ''/s/snapshot-1''}"
    and ca: "cache st1 = [''c1'' \<mapsto> {''/s/snapshot-1''}, ''c2'' \<mapsto> {''/s/snapshot-2''}]"
    and tgt: "files st1 ''/s/snapshot-1/maas.tgt'' \<noteq> None"
    by (simp add: download_outcome_def meta_contains_def isfile_def resolve_def utime_def
          read_text_file_def current_link_def Let_def ex_env_download_fails_def ex_env_def
          ex_download_fails_def ex_staged_def ex_world_def ex_fs_def)
  have exc: "is_Exception (OtherException ''connection reset'')"
    by simp
  have link: "current_link ex_env_download_fails = ''/s/current''"
    by (simp add: current_link_def ex_env_download_fails_def ex_env_def)
  have stor: "config_storage ex_env_download_fails = ''/s''"
    by (simp add: ex_env_download_fails_def ex_env_def)
  have reg: "registrar_result ex_env_download_fails st1 (current_link ex_env_download_fails)
               = Inr ()"
    by (simp add: registrar_result_eq current_link_def ex_env_download_fails_def ex_env_def)
  have w: "current (fs ex_world) = Some ''/s/snapshot-1''"
    "snapshots (fs ex_world) = {''/s/snapshot-1''}"
    "cache (fs ex_world) = [''c1'' \<mapsto> {''/s/snapshot-1''}]"
    by (simp_all add: ex_world_def ex_fs_def)
  have h1: "current st1 = current (fs ex_world)"
    by (simp add: cur w)
  have h2: "snapshots (fs ex_world) \<subseteq> snapshots st1"
    by (simp add: sn w)
  have h3: "\<forall>d\<in>snapshots st1 - snapshots (fs ex_world). current (fs ex_world) \<noteq> Some d"
    by (auto simp: sn w)
  have h4: "\<forall>k refs. cache st1 k = Some refs \<and> cache (fs ex_world) k = None
                \<longrightarrow> refs \<inter> snapshots (fs ex_world) = {}"
    by (auto simp: ca w split: if_splits)
  have d: "dom (cache (fs ex_world)) = {''c1''}"
    by (simp add: w)
  from download_failure_rolls_back [OF out exc reg h1 h2 h3 h4] show ?thesis
    by (simp add: w(1,2) d link stor staged_calls_def)
qed

text \<open>
  C3, as the claim states it, fails. On a full disk the write of the Metadata Record
  raises: the run raises the error to its caller with the Current Pointer untouched, but
  the staging directory \<^verbatim>\<open>/s/snapshot-2\<close> and the Cache entry made for it are still
  there, and the last call of the run is the failed write: neither the Target Registrar
  nor the reaper is invoked.
\<close>

theorem metadata_write_failure_leaves_staging:
  "fst (import_images ex_env_disk_full [ex_source] ex_world)
     = Inl (OtherException ''No space left on device'')
   \<and> current (fs (snd (import_images ex_env_disk_full [ex_source] ex_world)))
       = Some ''/s/snapshot-1''
   \<and> ''/s/snapshot-2'' \<in> snapshots (fs (snd (import_images ex_env_disk_full [ex_source] ex_world)))
   \<and> cache (fs (snd (import_images ex_env_disk_full [ex_source] ex_world))) ''c2''
       = Some {''/s/snapshot-2''}
   \<and> run_calls ex_env_disk_full [ex_source] ex_world =
       [WriteAllKeyrings, DownloadAllImageDescriptions, MapProducts, DownloadAllBootResources,
        WriteSnapshotMetadata ''/s/snapshot-2'']"
proof -
  obtain st1 where out: "download_outcome ex_env_disk_full [ex_source] ex_world
                           = Some (Inr ''/s/snapshot-2'', st1, ''[2]'')"
    and cur: "current st1 = Some ''/s/snapshot-1''"
    and sn: "snapshots st1 = {''/s/snapshot-2'', ''/s/snapshot-1''}"
    and ca: "cache st1 ''c2'' = Some {''/s/snapshot-2''}"
    by (simp add: download_outcome_def meta_contains_def isfile_def resolve_def utime_def
        read_text_file_def current_link_def Let_def ex_download_def ex_staged_def ex_world_def
        ex_fs_def ex_env_disk_full_def ex_env_def)
  have m: "metadata_write ex_env_disk_full ''/s/snapshot-2'' ''[2]'' st1
             = (Inl (OtherException ''No space left on device''), st1)"
    by (simp add: metadata_write_def write_snapshot_metadata_def encode_ascii_def
          atomic_write_def Let_def emit_def ex_env_disk_full_def ex_env_def)
  note run = staged_meta_fail [OF out m]
  have "run_calls ex_env_disk_full [ex_source] ex_world =
       [WriteAllKeyrings, DownloadAllImageDescriptions, MapProducts, DownloadAllBootResources,
        WriteSnapshotMetadata ''/s/snapshot-2'']"
    by (rule run_callsI) (simp add: run(3) staged_calls_def)
  then show ?thesis
    by (simp add: run(1,2) cur sn ca)
qed

text \<open>
  C3, amended. In a run whose download returned a staging directory:
  a failure writing the Metadata Record (step 2) or the Target Descriptor (step 3) is
  raised to the caller at once; the Current Pointer and the Snapshots are as the
  downloader left them, the staging directory among them; the failed write is the last
  call of the run, so neither the Target Registrar nor the reaper is invoked.
  A failure linking a boot loader (step 4) is sent as an error event and logged, and the
  loop and the commit go on: once both writes and the swap of the Current Pointer have
  returned, the Current Pointer names the staging directory and the Target Registrar is
  invoked for it.
\<close>

theorem commit_failure_propagates_without_rollback:
  assumes out: "download_outcome env sources w = Some (Inr sp, st1, c)"
  shows "(metadata_write env sp c st1 = (Inl e, st2) \<longrightarrow>
            fst (import_images env sources w) = Inl e
          \<and> fs (snd (import_images env sources w)) = st1
          \<and> run_calls env sources w = staged_calls @ [WriteSnapshotMetadata sp])
       \<and> (metadata_write env sp c st1 = (Inr (), st2)
            \<and> targets_write env sp st2 = (Inl e, st3) \<longrightarrow>
            fst (import_images env sources w) = Inl e
          \<and> fs (snd (import_images env sources w)) = st2
          \<and> current st2 = current st1 \<and> snapshots st2 = snapshots st1 \<and> cache st2 = cache st1
          \<and> run_calls env sources w =
              staged_calls @ [WriteSnapshotMetadata sp, WriteTargetsConf sp])
       \<and> (metadata_write env sp c st1 = (Inr (), st2)
            \<and> targets_write env sp st2 = (Inr (), st3)
            \<and> pointer_swap env sp (bootloaders_linked env sp st3) = (Inr (), st4) \<longrightarrow>
            current (fs (snd (import_images env sources w))) = Some sp
          \<and> run_calls env sources w =
              staged_calls @
              [WriteSnapshotMetadata sp, WriteTargetsConf sp, LinkBootloaders sp,
               UpdateCurrentSymlink (config_storage env) sp, UpdateIscsiTargets sp]
              @ (case registrar_result env st4 sp of
                   Inl x \<Rightarrow> [] | Inr u \<Rightarrow> [CleanupSnapshotsAndCache (config_storage env)]))
       \<and> (link_bootloader env m sp (fs w0) = (Some x, st') \<longrightarrow>
            link_bootloaders_loop env sp (m # ms) w0 =
              link_bootloaders_loop env sp ms
                (w0\<lparr>fs := st',
                    trace := trace w0 @
                      [LinkBootloader m sp,
                       RackEvent RACK_IMPORT_ERROR
                         (Pair ''Unable to link the %s bootloader.'' m),
                       MaasLog Error (Pair ''Unable to link the %s bootloader.'' m)]\<rparr>))"
proof -
  have a: "fst (import_images env sources w) = Inl e
          \<and> fs (snd (import_images env sources w)) = st1
          \<and> run_calls env sources w = staged_calls @ [WriteSnapshotMetadata sp]"
    if m: "metadata_write env sp c st1 = (Inl e, st2)"
  proof -
    have "st2 = st1"
      using metadata_write_frame(4) [OF m] by simp
    moreover have "run_calls env sources w = staged_calls @ [WriteSnapshotMetadata sp]"
      by (rule run_callsI) (simp add: staged_meta_fail(3) [OF out m])
    ultimately show ?thesis
      by (simp add: staged_meta_fail(1,2) [OF out m])
  qed
  have b: "fst (import_images env sources w) = Inl e
          \<and> fs (snd (import_images env sources w)) = st2
          \<and> current st2 = current st1 \<and> snapshots st2 = snapshots st1 \<and> cache st2 = cache st1
          \<and> run_calls env sources w =
              staged_calls @ [WriteSnapshotMetadata sp, WriteTargetsConf sp]"
    if m: "metadata_write env sp c st1 = (Inr (), st2)"
      and t: "targets_write env sp st2 = (Inl e, st3)"
  proof -
    have "st3 = st2"
      using targets_write_frame(4) [OF t] by simp
    moreover have "run_calls env sources w =
              staged_calls @ [WriteSnapshotMetadata sp, WriteTargetsConf sp]"
      by (rule run_callsI) (simp add: staged_tgt_fail(3) [OF out m t])
    ultimately show ?thesis
      by (simp add: staged_tgt_fail(1,2) [OF out m t] metadata_write_frame(1-3) [OF m])
  qed
  have c: "current (fs (snd (import_images env sources w))) = Some sp
          \<and> run_calls env sources w =
              staged_calls @
              [WriteSnapshotMetadata sp, WriteTargetsConf sp, LinkBootloaders sp,
               UpdateCurrentSymlink (config_storage env) sp, UpdateIscsiTargets sp]
              @ (case registrar_result env st4 sp of
                   Inl x \<Rightarrow> [] | Inr u \<Rightarrow> [CleanupSnapshotsAndCache (config_storage env)])"
    if m: "metadata_write env sp c st1 = (Inr (), st2)"
      and t: "targets_write env sp st2 = (Inr (), st3)"
      and p: "pointer_swap env sp (bootloaders_linked env sp st3) = (Inr (), st4)"
  proof -
    note run = staged_committed [OF out m t p]
    have "run_calls env sources w =
              staged_calls @
              [WriteSnapshotMetadata sp, WriteTargetsConf sp, LinkBootloaders sp,
               UpdateCurrentSymlink (config_storage env) sp, UpdateIscsiTargets sp]
              @ (case registrar_result env st4 sp of
                   Inl x \<Rightarrow> [] | Inr u \<Rightarrow> [CleanupSnapshotsAndCache (config_storage env)])"
      by (rule run_callsI) (simp add: run(3))
    then show ?thesis
      by (simp add: run(2) reap_current pointer_swap_current [OF p] split: sum.splits)
  qed
  from a b c link_bootloader_failure_continues [of env m sp w0 x st' ms] show ?thesis
    by blast
qed

theorem commit_failure_propagates_without_rollback_witness:
  "fst (import_images ex_env_disk_full [ex_source] ex_world)
     = Inl (OtherException ''No space left on device'')
   \<and> run_calls ex_env_disk_full [ex_source] ex_world =
       [WriteAllKeyrings, DownloadAllImageDescriptions, MapProducts, DownloadAllBootResources,
        WriteSnapshotMetadata ''/s/snapshot-2'']
   \<and> current (fs (snd (import_images ex_env [ex_source] ex_world))) = Some ''/s/snapshot-2''"
proof -
  obtain st1 where out: "download_outcome ex_env_disk_full [ex_source] ex_world
                           = Some (Inr ''/s/snapshot-2'', st1, ''[2]'')"
    using ex_disk_ok_outcome [of ex_env_disk_full "''/tmp/keyrings''"]
    by (auto simp: ex_env_disk_full_def ex_env_def)
  have m: "metadata_write ex_env_disk_full ''/s/snapshot-2'' ''[2]'' st1
             = (Inl (OtherException ''No space left on device''), st1)"
    by (simp add: metadata_write_def write_snapshot_metadata_def encode_ascii_def
          atomic_write_def Let_def emit_def ex_env_disk_full_def ex_env_def)
  obtain su1 where out': "download_outcome ex_env [ex_source] ex_world
                           = Some (Inr ''/s/snapshot-2'', su1, ''[2]'')"
    using ex_disk_ok_outcome [of ex_env "''/tmp/keyrings''"]
    by (auto simp: ex_env_def)
  obtain su2 where m': "metadata_write ex_env ''/s/snapshot-2'' ''[2]'' su1 = (Inr (), su2)"
    by (simp add: metadata_write_def write_snapshot_metadata_def encode_ascii_def
          atomic_write_def resolve_def current_link_def Let_def emit_def ex_env_def)
  obtain su3 where t': "targets_write ex_env ''/s/snapshot-2'' su2 = (Inr (), su3)"
    by (simp add: targets_write_def write_targets_conf_def atomic_write_def resolve_def
          current_link_def Let_def emit_def ex_env_def)
  obtain su4 where p': "pointer_swap ex_env ''/s/snapshot-2''
                         (bootloaders_linked ex_env ''/s/snapshot-2'' su3) = (Inr (), su4)"
    by (simp add: pointer_swap_def update_current_symlink_def atomic_symlink_def Let_def
          emit_def ex_env_def)
  from commit_failure_propagates_without_rollback
         [OF out, of "OtherException ''No space left on device''" st1] m
  have a: "fst (import_images ex_env_disk_full [ex_source] ex_world)
             = Inl (OtherException ''No space left on device'')
     \<and> run_calls ex_env_disk_full [ex_source] ex_world =
         [WriteAllKeyrings, DownloadAllImageDescriptions, MapProducts, DownloadAllBootResources,
          WriteSnapshotMetadata ''/s/snapshot-2'']"
    by (simp add: staged_calls_def)
  from commit_failure_propagates_without_rollback [OF out', of _ su2 su3 su4] m' t' p'
  have b: "current (fs (snd (import_images ex_env [ex_source] ex_world))) = Some ''/s/snapshot-2''"
    by simp
  from a b show ?thesis by simp
qed


text \<open>
  C4, as the claim states it, fails. A run can reach the commit phase and invoke the
  Target Registrar neither for the previous Snapshot nor for the new one: when the
  write of the Target Descriptor raises, the error leaves \<^verbatim>\<open>import_images\<close> at once.
\<close>

theorem descriptor_write_failure_invokes_no_registrar:
  "map_option fst (download_outcome ex_env_descriptor_unwritable [ex_source] ex_world)
     = Some (Inr ''/s/snapshot-2'')
   \<and> fst (import_images ex_env_descriptor_unwritable [ex_source] ex_world)
       = Inl (OtherException ''No space left on device'')
   \<and> run_calls ex_env_descriptor_unwritable [ex_source] ex_world =
       [WriteAllKeyrings, DownloadAllImageDescriptions, MapProducts, DownloadAllBootResources,
        WriteSnapshotMetadata ''/s/snapshot-2'', WriteTargetsConf ''/s/snapshot-2'']
   \<and> registrar_calls (run_calls ex_env_descriptor_unwritable [ex_source] ex_world) = []"
proof -
  obtain st1 where out: "download_outcome ex_env_descriptor_unwritable [ex_source] ex_world
                           = Some (Inr ''/s/snapshot-2'', st1, ''[2]'')"
    using ex_disk_ok_outcome [of ex_env_descriptor_unwritable "''/tmp/keyrings''"]
    by (auto simp: ex_env_descriptor_unwritable_def ex_env_def)
  obtain st2 where m: "metadata_write ex_env_descriptor_unwritable ''/s/snapshot-2'' ''[2]'' st1
                         = (Inr (), st2)"
    by (simp add: metadata_write_def write_snapshot_metadata_def encode_ascii_def
          atomic_write_def resolve_def current_link_def Let_def emit_def
          ex_env_descriptor_unwritable_def ex_env_def)
  have t: "targets_write ex_env_descriptor_unwritable ''/s/snapshot-2'' st2
             = (Inl (OtherException ''No space left on device''), st2)"
    by (simp add: targets_write_def write_targets_conf_def atomic_write_def Let_def emit_def
          ex_env_descriptor_unwritable_def ex_env_def)
  note run = staged_tgt_fail [OF out m t]
  have "run_calls ex_env_descriptor_unwritable [ex_source] ex_world =
       [WriteAllKeyrings, DownloadAllImageDescriptions, MapProducts, DownloadAllBootResources,
        WriteSnapshotMetadata ''/s/snapshot-2'', WriteTargetsConf ''/s/snapshot-2'']"
    by (rule run_callsI) (simp add: run(3) staged_calls_def)
  then show ?thesis
    by (simp add: run(1) out)
qed

text \<open>
  C4, amended. No run invokes the Target Registrar more than once, so never both for the
  previous Snapshot and for the new one. In a run that reaches the staging phase exactly
  one invocation occurs in two cases: for the \<^verbatim>\<open>current\<close> path when the download raises
  an \<^verbatim>\<open>Exception\<close>, and for the new Snapshot when the download, both writes and the swap
  of the Current Pointer return. A run whose download raises something that is not an
  \<^verbatim>\<open>Exception\<close>, or in which a write or the swap raises, invokes it not at all.
\<close>

theorem registrar_invoked_at_most_once:
  "length (registrar_calls (run_calls env sources w)) \<le> 1
   \<and> (download_outcome env sources w = Some (Inl e, st1, c) \<and> is_Exception e \<longrightarrow>
        registrar_calls (run_calls env sources w) = [current_link env])
   \<and> (download_outcome env sources w = Some (Inr sp, st1, c)
        \<and> metadata_write env sp c st1 = (Inr (), st2)
        \<and> targets_write env sp st2 = (Inr (), st3)
        \<and> pointer_swap env sp (bootloaders_linked env sp st3) = (Inr (), st4) \<longrightarrow>
        registrar_calls (run_calls env sources w) = [sp])
   \<and> (download_outcome env sources w = Some (Inl e, st1, c) \<and> \<not> is_Exception e \<longrightarrow>
        registrar_calls (run_calls env sources w) = [])
   \<and> (download_outcome env sources w = Some (Inr sp, st1, c)
        \<and> metadata_write env sp c st1 = (Inl x, st2) \<longrightarrow>
        registrar_calls (run_calls env sources w) = [])
   \<and> (download_outcome env sources w = Some (Inr sp, st1, c)
        \<and> metadata_write env sp c st1 = (Inr (), st2)
        \<and> targets_write env sp st2 = (Inl x, st3) \<longrightarrow>
        registrar_calls (run_calls env sources w) = [])
   \<and> (download_outcome env sources w = Some (Inr sp, st1, c)
        \<and> metadata_write env sp c st1 = (Inr (), st2)
        \<and> targets_write env sp st2 = (Inr (), st3)
        \<and> pointer_swap env sp (bootloaders_linked env sp st3) = (Inl x, st4) \<longrightarrow>
        registrar_calls (run_calls env sources w) = [])"
proof -
  have r1: "registrar_calls (run_calls env sources w) = [current_link env]"
    if "download_outcome env sources w = Some (Inl e, st1, c)" "is_Exception e"
    using staged_failure(3) [OF that]
    by (simp add: run_calls_def staged_calls_def split: sum.splits)
  have r2: "registrar_calls (run_calls env sources w) = [sp]"
    if "download_outcome env sources w = Some (Inr sp, st1, c)"
      "metadata_write env sp c st1 = (Inr (), st2)"
      "targets_write env sp st2 = (Inr (), st3)"
      "pointer_swap env sp (bootloaders_linked env sp st3) = (Inr (), st4)"
    using staged_committed(3) [OF that]
    by (simp add: run_calls_def staged_calls_def split: sum.splits)
  have r3: "registrar_calls (run_calls env sources w) = []"
    if "download_outcome env sources w = Some (Inl e, st1, c)" "\<not> is_Exception e"
    using staged_nonexception(3) [OF that]
    by (simp add: run_calls_def staged_calls_def)
  have r4: "registrar_calls (run_calls env sources w) = []"
    if "download_outcome env sources w = Some (Inr sp, st1, c)"
      "metadata_write env sp c st1 = (Inl x, st2)"
    using staged_meta_fail(3) [OF that]
    by (simp add: run_calls_def staged_calls_def)
  have r5: "registrar_calls (run_calls env sources w) = []"
    if "download_outcome env sources w = Some (Inr sp, st1, c)"
      "metadata_write env sp c st1 = (Inr (), st2)"
      "targets_write env sp st2 = (Inl x, st3)"
    using staged_tgt_fail(3) [OF that]
    by (simp add: run_calls_def staged_calls_def)
  have r6: "registrar_calls (run_calls env sources w) = []"
    if "download_outcome env sources w = Some (Inr sp, st1, c)"
      "metadata_write env sp c st1 = (Inr (), st2)"
      "targets_write env sp st2 = (Inr (), st3)"
      "pointer_swap env sp (bootloaders_linked env sp st3) = (Inl x, st4)"
    using staged_swap_fail(3) [OF that]
    by (simp add: run_calls_def staged_calls_def)
  from run_calls_at_most_one_registrar [of env sources w] r1 r2 r3 r4 r5 r6 show ?thesis
    by blast
qed

theorem registrar_invoked_at_most_once_witness:
  "registrar_calls (run_calls ex_env_download_fails [ex_source] ex_world) = [''/s/current'']
   \<and> registrar_calls (run_calls ex_env [ex_source] ex_world) = [''/s/snapshot-2'']
   \<and> length (registrar_calls (run_calls ex_env [ex_source] ex_world)) \<le> 1"
proof -
  obtain st1 where
    out: "download_outcome ex_env_download_fails [ex_source] ex_world
            = Some (Inl (OtherException ''connection reset''), st1, ''[2]'')"
    by (simp add: download_outcome_def meta_contains_def isfile_def resolve_def utime_def
          read_text_file_def current_link_def Let_def ex_env_download_fails_def ex_env_def
          ex_download_fails_def ex_staged_def ex_world_def ex_fs_def)
  have exc: "is_Exception (OtherException ''connection reset'')"
    by simp
  have link: "current_link ex_env_download_fails = ''/s/current''"
    by (simp add: current_link_def ex_env_download_fails_def ex_env_def)
  obtain su1 where out': "download_outcome ex_env [ex_source] ex_world
                           = Some (Inr ''/s/snapshot-2'', su1, ''[2]'')"
    using ex_disk_ok_outcome [of ex_env "''/tmp/keyrings''"]
    by (auto simp: ex_env_def)
  obtain su2 where m': "metadata_write ex_env ''/s/snapshot-2'' ''[2]'' su1 = (Inr (), su2)"
    by (simp add: metadata_write_def write_snapshot_metadata_def encode_ascii_def
          atomic_write_def resolve_def current_link_def Let_def emit_def ex_env_def)
  obtain su3 where t': "targets_write ex_env ''/s/snapshot-2'' su2 = (Inr (), su3)"
    by (simp add: targets_write_def write_targets_conf_def atomic_write_def resolve_def
          current_link_def Let_def emit_def ex_env_def)
  obtain su4 where p': "pointer_swap ex_env ''/s/snapshot-2''
                         (bootloaders_linked ex_env ''/s/snapshot-2'' su3) = (Inr (), su4)"
    by (simp add: pointer_swap_def update_current_symlink_def atomic_symlink_def Let_def
          emit_def ex_env_def)
  from registrar_invoked_at_most_once
         [of ex_env_download_fails "[ex_source]" ex_world
             "OtherException ''connection reset''" st1 "''[2]''"]
       out exc link
  have a: "registrar_calls (run_calls ex_env_download_fails [ex_source] ex_world)
             = [''/s/current'']"
    by simp
  from registrar_invoked_at_most_once
         [of ex_env "[ex_source]" ex_world _ su1 "''[2]''" "''/s/snapshot-2''" su2 su3 su4]
       out' m' t' p'
  have b: "registrar_calls (run_calls ex_env [ex_source] ex_world) = [''/s/snapshot-2'']
           \<and> length (registrar_calls (run_calls ex_env [ex_source] ex_world)) \<le> 1"
    by simp
  from a b show ?thesis by simp
qed

end
